theory Spec2Isabelle
  imports Main "HOL-Library.Word" "HOL-Library.Signed_Division"
begin

unbundle bit_operations_syntax

section \<open>Bytes, slices and errors\<close>

type_synonym byte = "8 word"
type_synonym uint32 = "32 word"

text \<open>
  The errors of the ratchet package. \<open>Wrap msg e\<close> is \<^verbatim>\<open>fmt.Errorf(msg + ": %w", e)\<close>;
  \<open>PanicSliceBounds\<close> stands for the run-time panic of a slice expression whose bound is
  out of range.
\<close>

datatype error = ErrValueTooShort | Wrap string error | PanicSliceBounds

text \<open>
  The slice expression \<^verbatim>\<open>s[n:]\<close>: it panics when \<open>n\<close> exceeds the length of \<open>s\<close>
  (\<open>None\<close>), and otherwise is the view of \<open>s\<close> from offset \<open>n\<close>.
\<close>

definition slice_from :: "nat \<Rightarrow> byte list \<Rightarrow> byte list option" where
  "slice_from n s = (if n \<le> length s then Some (drop n s) else None)"

text \<open>
  The slice expression \<^verbatim>\<open>s[:n]\<close>, for a slice whose capacity is its length.
\<close>

definition slice_to :: "nat \<Rightarrow> byte list \<Rightarrow> byte list option" where
  "slice_to n s = (if n \<le> length s then Some (take n s) else None)"

text \<open>
  Go's builtin \<^verbatim>\<open>copy(dst, src)\<close>: it copies \<open>min (len dst) (len src)\<close> bytes to the
  front of \<open>dst\<close> and returns that number. The model returns the contents of \<open>dst\<close>
  after the call together with the count.
\<close>

definition copy_go :: "byte list \<Rightarrow> byte list \<Rightarrow> byte list \<times> nat" where
  "copy_go dst src =
     (let n = min (length dst) (length src) in (take n src @ drop n dst, n))"

section \<open>Chain keys\<close>

definition chainKeySeed :: byte where
  "chainKeySeed = 0x02"

definition messageKeyLength :: nat where
  "messageKeyLength = 32"

record chainKey =
  ck_Index :: uint32
  ck_Key :: "byte list"

text \<open>
  \<^verbatim>\<open>chainKey.advance\<close>. The keyed hash \<^verbatim>\<open>crypto.HMACSHA256(key, input)\<close> is not part of
  the ratchet package; it is the parameter \<open>HMACSHA256\<close>. The index is a \<^verbatim>\<open>uint32\<close>, so
  \<^verbatim>\<open>c.Index++\<close> wraps around.
\<close>

definition advance ::
  "(byte list \<Rightarrow> byte list \<Rightarrow> byte list) \<Rightarrow> chainKey \<Rightarrow> chainKey" where
  "advance HMACSHA256 c =
     (let c1 = c\<lparr>ck_Key := HMACSHA256 (ck_Key c) [chainKeySeed]\<rparr>
      in c1\<lparr>ck_Index := ck_Index c1 + 1\<rparr>)"

section \<open>The pickle primitives\<close>

text \<open>
  Modelled from the spec: package \<^verbatim>\<open>libolmpickle\<close> (\<^verbatim>\<open>PickleUInt32\<close>, \<^verbatim>\<open>UnpickleUInt32\<close>,
  \<^verbatim>\<open>PickleBytes\<close>, \<^verbatim>\<open>UnpickleBytes\<close>) is not among the sources. By the spec a 32-bit
  counter occupies a fixed-width big-endian slot of four bytes, key material is copied
  verbatim, and decoding a truncated buffer is an error. A Go function returning
  \<^verbatim>\<open>(v, n, err)\<close> is a triple whose last component is \<open>None\<close> for \<^verbatim>\<open>nil\<close>; a function
  writing to \<open>target\<close> returns the contents of \<open>target\<close> after the call first.
\<close>

definition PickleUInt32Length :: nat where
  "PickleUInt32Length = 4"

definition BigEndian_PutUint32 :: "uint32 \<Rightarrow> byte list" where
  "BigEndian_PutUint32 v =
     [ucast (drop_bit 24 v), ucast (drop_bit 16 v), ucast (drop_bit 8 v), ucast v]"

definition PickleUInt32 :: "uint32 \<Rightarrow> byte list \<Rightarrow> byte list \<times> nat" where
  "PickleUInt32 v target = (let res = BigEndian_PutUint32 v in copy_go target res)"

definition UnpickleUInt32 :: "byte list \<Rightarrow> uint32 \<times> nat \<times> error option" where
  "UnpickleUInt32 val =
     (if length val < 4 then (0, 0, Some ErrValueTooShort)
      else (push_bit 24 (ucast (val ! 0)) OR push_bit 16 (ucast (val ! 1))
              OR push_bit 8 (ucast (val ! 2)) OR ucast (val ! 3), 4, None))"

definition PickleBytes :: "byte list \<Rightarrow> byte list \<Rightarrow> byte list \<times> nat" where
  "PickleBytes val target = copy_go target val"

definition UnpickleBytes :: "byte list \<Rightarrow> nat \<Rightarrow> byte list \<times> nat \<times> error option" where
  "UnpickleBytes val n =
     (if length val < n then ([], 0, Some ErrValueTooShort) else (take n val, n, None))"

text \<open>
  Modelled from the spec: \<^verbatim>\<open>crypto.Curve25519PublicKey\<close>, a byte slice, and its pickle
  methods are not among the sources. By the spec fixed-length key material is copied
  verbatim, and key material of the wrong length is replaced with an all-zero
  placeholder of the same fixed length. The decoder takes the receiver and returns it
  after the call.
\<close>

definition Curve25519PubKeyLength :: nat where
  "Curve25519PubKeyLength = 32"

definition Curve25519PublicKey_PickleLibOlm ::
  "byte list \<Rightarrow> byte list \<Rightarrow> byte list \<times> nat \<times> error option" where
  "Curve25519PublicKey_PickleLibOlm c target =
     (if length target < Curve25519PubKeyLength then (target, 0, Some ErrValueTooShort)
      else if length c \<noteq> Curve25519PubKeyLength then
        (case PickleBytes (replicate Curve25519PubKeyLength 0) target of
           (target', n) \<Rightarrow> (target', n, None))
      else (case PickleBytes c target of (target', n) \<Rightarrow> (target', n, None)))"

definition Curve25519PublicKey_UnpickleLibOlm ::
  "byte list \<Rightarrow> byte list \<Rightarrow> byte list \<times> nat \<times> error option" where
  "Curve25519PublicKey_UnpickleLibOlm c val =
     (case UnpickleBytes val Curve25519PubKeyLength of
        (unpickled, readBytes, Some err) \<Rightarrow> (c, 0, Some err)
      | (unpickled, readBytes, None) \<Rightarrow> (unpickled, readBytes, None))"

section \<open>Pickling chain keys\<close>

definition chainKeyPickleLength :: nat where
  "chainKeyPickleLength = Curve25519PubKeyLength + PickleUInt32Length"

text \<open>
  \<^verbatim>\<open>chainKey.UnpickleLibOlm\<close> has a pointer receiver: the model takes the receiver and
  returns it as the call leaves it, with the number of bytes read and the error. The
  assignment \<^verbatim>\<open>r.Index, readBytes, err = libolmpickle.UnpickleUInt32(...)\<close> stores the
  returned counter before the error is looked at.
\<close>

definition chainKey_UnpickleLibOlm ::
  "chainKey \<Rightarrow> byte list \<Rightarrow> chainKey \<times> nat \<times> error option" where
  "chainKey_UnpickleLibOlm r val =
     (let curPos = 0 in
      case Curve25519PublicKey_UnpickleLibOlm (ck_Key r) val of
        (k, readBytes, Some err) \<Rightarrow> (r\<lparr>ck_Key := k\<rparr>, 0, Some err)
      | (k, readBytes, None) \<Rightarrow>
          (let r1 = r\<lparr>ck_Key := k\<rparr>; curPos = curPos + readBytes in
           case slice_from curPos val of
             None \<Rightarrow> (r1, 0, Some PanicSliceBounds)
           | Some rest \<Rightarrow>
               (case UnpickleUInt32 rest of
                  (i, readBytes, Some err) \<Rightarrow> (r1\<lparr>ck_Index := i\<rparr>, 0, Some err)
                | (i, readBytes, None) \<Rightarrow> (r1\<lparr>ck_Index := i\<rparr>, curPos + readBytes, None))))"

text \<open>
  \<^verbatim>\<open>chainKey.PickleLibOlm\<close>. The counter is written to \<^verbatim>\<open>target[written:]\<close>, a view of
  the same buffer: the bytes before \<open>written\<close> stay as the key encoder left them.
\<close>

definition chainKey_PickleLibOlm ::
  "chainKey \<Rightarrow> byte list \<Rightarrow> byte list \<times> nat \<times> error option" where
  "chainKey_PickleLibOlm r target =
     (if length target < chainKeyPickleLength then
        (target, 0, Some (Wrap ''pickle chain key'' ErrValueTooShort))
      else
        case Curve25519PublicKey_PickleLibOlm (ck_Key r) target of
          (target1, written, Some err) \<Rightarrow> (target1, 0, Some (Wrap ''pickle chain key'' err))
        | (target1, written, None) \<Rightarrow>
            (case slice_from written target1 of
               None \<Rightarrow> (target1, 0, Some PanicSliceBounds)
             | Some sub \<Rightarrow>
                 (case PickleUInt32 (ck_Index r) sub of
                    (sub', n) \<Rightarrow> (take written target1 @ sub', written + n, None))))"

section \<open>Sender and receiver chains\<close>

text \<open>
  The key pair type \<^verbatim>\<open>crypto.Curve25519KeyPair\<close> and its pickle methods are not among
  the sources. The sender chain is modelled over any key pair type \<open>'kp\<close>, and its
  methods take the key pair's encoder \<open>kpPickle\<close> and decoder \<open>kpUnpickle\<close> as
  parameters, of the same shape as the methods of the public key.
\<close>

record 'kp senderChain =
  sc_RKey :: 'kp
  sc_CKey :: chainKey
  sc_IsSet :: bool

definition senderChainPickleLength :: nat where
  "senderChainPickleLength = chainKeyPickleLength + chainKeyPickleLength"

definition newSenderChain :: "byte list \<Rightarrow> 'kp \<Rightarrow> 'kp senderChain" where
  "newSenderChain key ratchet =
     \<lparr>sc_RKey = ratchet, sc_CKey = \<lparr>ck_Index = 0, ck_Key = key\<rparr>, sc_IsSet = True\<rparr>"

definition senderChain_advance ::
  "(byte list \<Rightarrow> byte list \<Rightarrow> byte list) \<Rightarrow> 'kp senderChain \<Rightarrow> 'kp senderChain" where
  "senderChain_advance HMACSHA256 s = s\<lparr>sc_CKey := advance HMACSHA256 (sc_CKey s)\<rparr>"

definition senderChain_UnpickleLibOlm ::
  "('kp \<Rightarrow> byte list \<Rightarrow> 'kp \<times> nat \<times> error option) \<Rightarrow>
   'kp senderChain \<Rightarrow> byte list \<Rightarrow> 'kp senderChain \<times> nat \<times> error option" where
  "senderChain_UnpickleLibOlm kpUnpickle r val =
     (let curPos = 0 in
      case kpUnpickle (sc_RKey r) val of
        (k, readBytes, Some err) \<Rightarrow> (r\<lparr>sc_RKey := k\<rparr>, 0, Some err)
      | (k, readBytes, None) \<Rightarrow>
          (let r1 = r\<lparr>sc_RKey := k\<rparr>; curPos = curPos + readBytes in
           case slice_from curPos val of
             None \<Rightarrow> (r1, 0, Some PanicSliceBounds)
           | Some rest \<Rightarrow>
               (case chainKey_UnpickleLibOlm (sc_CKey r1) rest of
                  (ck, readBytes, Some err) \<Rightarrow> (r1\<lparr>sc_CKey := ck\<rparr>, 0, Some err)
                | (ck, readBytes, None) \<Rightarrow> (r1\<lparr>sc_CKey := ck\<rparr>, curPos + readBytes, None))))"

definition senderChain_PickleLibOlm ::
  "('kp \<Rightarrow> byte list \<Rightarrow> byte list \<times> nat \<times> error option) \<Rightarrow>
   'kp senderChain \<Rightarrow> byte list \<Rightarrow> byte list \<times> nat \<times> error option" where
  "senderChain_PickleLibOlm kpPickle r target =
     (if length target < senderChainPickleLength then
        (target, 0, Some (Wrap ''pickle sender chain'' ErrValueTooShort))
      else
        case kpPickle (sc_RKey r) target of
          (target1, written, Some err) \<Rightarrow> (target1, 0, Some (Wrap ''pickle sender chain'' err))
        | (target1, written, None) \<Rightarrow>
            (case slice_from written target1 of
               None \<Rightarrow> (target1, 0, Some PanicSliceBounds)
             | Some sub \<Rightarrow>
                 (case chainKey_PickleLibOlm (sc_CKey r) sub of
                    (sub', writtenChain, Some err) \<Rightarrow>
                      (take written target1 @ sub', 0, Some (Wrap ''pickle sender chain'' err))
                  | (sub', writtenChain, None) \<Rightarrow>
                      (take written target1 @ sub', written + writtenChain, None))))"

record receiverChain =
  rc_RKey :: "byte list"
  rc_CKey :: chainKey

definition receiverChainPickleLength :: nat where
  "receiverChainPickleLength = Curve25519PubKeyLength + chainKeyPickleLength"

definition newReceiverChain :: "byte list \<Rightarrow> byte list \<Rightarrow> receiverChain" where
  "newReceiverChain chain ratchet =
     \<lparr>rc_RKey = ratchet, rc_CKey = \<lparr>ck_Index = 0, ck_Key = chain\<rparr>\<rparr>"

definition receiverChain_advance ::
  "(byte list \<Rightarrow> byte list \<Rightarrow> byte list) \<Rightarrow> receiverChain \<Rightarrow> receiverChain" where
  "receiverChain_advance HMACSHA256 s = s\<lparr>rc_CKey := advance HMACSHA256 (rc_CKey s)\<rparr>"

definition receiverChain_UnpickleLibOlm ::
  "receiverChain \<Rightarrow> byte list \<Rightarrow> receiverChain \<times> nat \<times> error option" where
  "receiverChain_UnpickleLibOlm r val =
     (let curPos = 0 in
      case Curve25519PublicKey_UnpickleLibOlm (rc_RKey r) val of
        (k, readBytes, Some err) \<Rightarrow> (r\<lparr>rc_RKey := k\<rparr>, 0, Some err)
      | (k, readBytes, None) \<Rightarrow>
          (let r1 = r\<lparr>rc_RKey := k\<rparr>; curPos = curPos + readBytes in
           case slice_from curPos val of
             None \<Rightarrow> (r1, 0, Some PanicSliceBounds)
           | Some rest \<Rightarrow>
               (case chainKey_UnpickleLibOlm (rc_CKey r1) rest of
                  (ck, readBytes, Some err) \<Rightarrow> (r1\<lparr>rc_CKey := ck\<rparr>, 0, Some err)
                | (ck, readBytes, None) \<Rightarrow> (r1\<lparr>rc_CKey := ck\<rparr>, curPos + readBytes, None))))"

text \<open>
  \<^verbatim>\<open>receiverChain.PickleLibOlm\<close> hands the chain key encoder \<^verbatim>\<open>target\<close> itself, not
  \<^verbatim>\<open>target[written:]\<close>: the chain key is written from offset 0 of the buffer.
\<close>

definition receiverChain_PickleLibOlm ::
  "receiverChain \<Rightarrow> byte list \<Rightarrow> byte list \<times> nat \<times> error option" where
  "receiverChain_PickleLibOlm r target =
     (if length target < receiverChainPickleLength then
        (target, 0, Some (Wrap ''pickle sender chain'' ErrValueTooShort))
      else
        case Curve25519PublicKey_PickleLibOlm (rc_RKey r) target of
          (target1, written, Some err) \<Rightarrow> (target1, 0, Some (Wrap ''pickle sender chain'' err))
        | (target1, written, None) \<Rightarrow>
            (case chainKey_PickleLibOlm (rc_CKey r) target1 of
               (target2, writtenChain, Some err) \<Rightarrow>
                 (target2, 0, Some (Wrap ''pickle sender chain'' err))
             | (target2, writtenChain, None) \<Rightarrow> (target2, written + writtenChain, None)))"

section \<open>Message keys and skipped message keys\<close>

record messageKey =
  mk_Index :: uint32
  mk_Key :: "byte list"

definition messageKeyPickleLength :: nat where
  "messageKeyPickleLength = messageKeyLength + PickleUInt32Length"

text \<open>
  \<^verbatim>\<open>messageKey.UnpickleLibOlm\<close> reads the counter from \<^verbatim>\<open>value[:curPos]\<close>, the bytes
  before the current position.
\<close>

definition messageKey_UnpickleLibOlm ::
  "messageKey \<Rightarrow> byte list \<Rightarrow> messageKey \<times> nat \<times> error option" where
  "messageKey_UnpickleLibOlm m val =
     (let curPos = 0 in
      case UnpickleBytes val messageKeyLength of
        (ratchetKey, readBytes, Some err) \<Rightarrow> (m, 0, Some err)
      | (ratchetKey, readBytes, None) \<Rightarrow>
          (let m1 = m\<lparr>mk_Key := ratchetKey\<rparr>; curPos = curPos + readBytes in
           case slice_to curPos val of
             None \<Rightarrow> (m1, 0, Some PanicSliceBounds)
           | Some front \<Rightarrow>
               (case UnpickleUInt32 front of
                  (keyID, readBytes, Some err) \<Rightarrow> (m1, 0, Some err)
                | (keyID, readBytes, None) \<Rightarrow>
                    (m1\<lparr>mk_Index := keyID\<rparr>, curPos + readBytes, None))))"

definition messageKey_PickleLibOlm ::
  "messageKey \<Rightarrow> byte list \<Rightarrow> byte list \<times> nat \<times> error option" where
  "messageKey_PickleLibOlm m target =
     (if length target < messageKeyPickleLength then
        (target, 0, Some (Wrap ''pickle message key'' ErrValueTooShort))
      else
        case (if length (mk_Key m) \<noteq> messageKeyLength
              then PickleBytes (replicate messageKeyLength 0) target
              else PickleBytes (mk_Key m) target) of
          (target1, n) \<Rightarrow>
            (let written = 0 + n in
             case slice_from written target1 of
               None \<Rightarrow> (target1, 0, Some PanicSliceBounds)
             | Some sub \<Rightarrow>
                 (case PickleUInt32 (mk_Index m) sub of
                    (sub', n') \<Rightarrow> (take written target1 @ sub', written + n', None))))"

record skippedMessageKey =
  sk_RKey :: "byte list"
  sk_MKey :: messageKey

definition skippedMessageKeyPickleLen :: nat where
  "skippedMessageKeyPickleLen = Curve25519PubKeyLength + messageKeyPickleLength"

definition skippedMessageKey_UnpickleLibOlm ::
  "skippedMessageKey \<Rightarrow> byte list \<Rightarrow> skippedMessageKey \<times> nat \<times> error option" where
  "skippedMessageKey_UnpickleLibOlm r val =
     (let curPos = 0 in
      case Curve25519PublicKey_UnpickleLibOlm (sk_RKey r) val of
        (k, readBytes, Some err) \<Rightarrow> (r\<lparr>sk_RKey := k\<rparr>, 0, Some err)
      | (k, readBytes, None) \<Rightarrow>
          (let r1 = r\<lparr>sk_RKey := k\<rparr>; curPos = curPos + readBytes in
           case slice_from curPos val of
             None \<Rightarrow> (r1, 0, Some PanicSliceBounds)
           | Some rest \<Rightarrow>
               (case messageKey_UnpickleLibOlm (sk_MKey r1) rest of
                  (mk, readBytes, Some err) \<Rightarrow> (r1\<lparr>sk_MKey := mk\<rparr>, 0, Some err)
                | (mk, readBytes, None) \<Rightarrow> (r1\<lparr>sk_MKey := mk\<rparr>, curPos + readBytes, None))))"

text \<open>
  \<^verbatim>\<open>skippedMessageKey.PickleLibOlm\<close> hands the message key encoder \<^verbatim>\<open>target\<close> itself,
  as the receiver chain does.
\<close>

definition skippedMessageKey_PickleLibOlm ::
  "skippedMessageKey \<Rightarrow> byte list \<Rightarrow> byte list \<times> nat \<times> error option" where
  "skippedMessageKey_PickleLibOlm r target =
     (if length target < skippedMessageKeyPickleLen then
        (target, 0, Some (Wrap ''pickle sender chain'' ErrValueTooShort))
      else
        case Curve25519PublicKey_PickleLibOlm (sk_RKey r) target of
          (target1, written, Some err) \<Rightarrow> (target1, 0, Some (Wrap ''pickle sender chain'' err))
        | (target1, written, None) \<Rightarrow>
            (case messageKey_PickleLibOlm (sk_MKey r) target1 of
               (target2, writtenChain, Some err) \<Rightarrow>
                 (target2, 0, Some (Wrap ''pickle sender chain'' err))
             | (target2, writtenChain, None) \<Rightarrow> (target2, written + writtenChain, None)))"

section \<open>Key backup: data\<close>

text \<open>
  User, device, key, room and session identifiers, key backup versions and encoded keys
  are Go strings.
\<close>

type_synonym UserID = string
type_synonym KeyID = string
type_synonym Ed25519 = string
type_synonym RoomID = string
type_synonym SessionID = string
type_synonym KeyBackupVersion = string

text \<open>
  Modelled from the spec: the identifier constants of package \<^verbatim>\<open>id\<close> are not among the
  sources. The spec names the supported backup algorithm \<^verbatim>\<open>megolm-backup-v1\<close>, the
  supported session algorithm \<^verbatim>\<open>megolm-v1\<close> and the signing key algorithm \<^verbatim>\<open>ed25519\<close>.
\<close>

definition KeyBackupAlgorithmMegolmBackupV1 :: string where
  "KeyBackupAlgorithmMegolmBackupV1 = ''megolm-backup-v1''"

definition AlgorithmMegolmV1 :: string where
  "AlgorithmMegolmV1 = ''megolm-v1''"

definition KeyAlgorithmEd25519 :: string where
  "KeyAlgorithmEd25519 = ''ed25519''"

text \<open>
  The errors of the key backup functions: the error values the functions build
  themselves, \<open>ExternalError\<close> for an error handed back by a collaborator, and
  \<open>PanicNilDereference\<close> for the run-time panic of a nil pointer dereference.
\<close>

datatype backup_error =
    ExternalError string
  | UnsupportedKeyBackupAlgorithm string
  | NoSignatureFromUser UserID
  | ErrCrossSigningPubkeysNotCached
  | FailedToGetDevice UserID string backup_error
  | NoValidSignatureFromUser UserID
  | WeirdAlgorithm string
  | FailedToImportInboundGroupSession backup_error
  | MismatchedSessionID
  | FailedToStoreInboundGroupSession backup_error
  | PanicNilDereference

text \<open>
  \<^verbatim>\<open>auth_data\<close>: the signatures of a user are a Go map from key ID to signature. A
  \<^verbatim>\<open>range\<close> loop visits a map's entries in an order the run time chooses, so the inner
  map is the list of its entries in the order the loop visits them.
\<close>

record MegolmAuthData =
  ad_PublicKey :: Ed25519
  ad_Signatures :: "UserID \<rightharpoonup> (KeyID \<times> string) list"

record RespRoomKeysVersion =
  rv_Algorithm :: string
  rv_AuthData :: MegolmAuthData
  rv_Count :: int
  rv_ETag :: string
  rv_Version :: KeyBackupVersion

record Device =
  dev_DeviceID :: string
  dev_SigningKey :: Ed25519

record CrossSigningPublicKeysCache =
  cs_MasterKey :: Ed25519
  cs_SelfSigningKey :: Ed25519
  cs_UserSigningKey :: Ed25519

record MegolmSessionData =
  msd_Algorithm :: string
  msd_ForwardingKeyChain :: "string list"
  msd_SenderClaimedKeys_Ed25519 :: Ed25519
  msd_SenderKey :: string
  msd_SessionKey :: string

text \<open>
  What the functions read of the ratchet behind the interface \<^verbatim>\<open>olm.InboundGroupSession\<close>:
  its session ID and its first known index.
\<close>

record olm_InboundGroupSession =
  ois_ID :: SessionID
  ois_FirstKnownIndex :: uint32

record EncryptionEventContent =
  ee_RotationPeriodMillis :: "64 word"
  ee_RotationPeriodMessages :: "64 word"

record InboundGroupSession =
  igs_Internal :: olm_InboundGroupSession
  igs_SigningKey :: Ed25519
  igs_SenderKey :: string
  igs_RoomID :: RoomID
  igs_ForwardingChains :: "string list"
  igs_id :: SessionID
  igs_ReceivedAt :: int
  igs_MaxAge :: "64 word"
  igs_MaxMessages :: "64 word"
  igs_KeyBackupVersion :: KeyBackupVersion

text \<open>
  The backup payload: the encrypted session data of each entry is an opaque byte
  string. The rooms of the payload and the sessions of a room are Go maps too, and are
  lists of entries in the order the loops visit them.
\<close>

record KeyBackupData =
  kbd_SessionData :: "byte list"

record RoomKeyBackup =
  rkb_Sessions :: "(SessionID \<times> KeyBackupData) list"

record RespRoomKeysBackup =
  rb_Rooms :: "(RoomID \<times> RoomKeyBackup) list"

text \<open>
  The part of the machine the functions change: the sessions handed to
  \<^verbatim>\<open>CryptoStore.PutGroupSession\<close>, in call order, and the calls of
  \<^verbatim>\<open>markSessionReceived\<close>.
\<close>

record machine_state =
  PutGroupSession_calls :: "InboundGroupSession list"
  markSessionReceived_calls :: "(RoomID \<times> SessionID \<times> uint32) list"

text \<open>
  The collaborators of the machine, none of them among the sources: the network client,
  the crypto store, the state store and the machine's own trust queries. A collaborator
  that returns a value and an error is a sum (\<open>Inl\<close> the error), with an \<open>option\<close>
  inside where the caller handles a nil value. The answer of \<^verbatim>\<open>PutGroupSession\<close> may
  depend on the calls made before.
\<close>

record OlmMachine =
  Client_UserID :: UserID
  Client_GetKeyBackupLatestVersion :: "backup_error + RespRoomKeysVersion"
  Client_GetKeyBackup :: "KeyBackupVersion \<Rightarrow> backup_error + RespRoomKeysBackup"
  GetOwnCrossSigningPublicKeys :: "CrossSigningPublicKeysCache option"
  CryptoStore_GetDevice :: "UserID \<Rightarrow> string \<Rightarrow> backup_error + Device option"
  IsDeviceTrusted :: "Device \<Rightarrow> bool"
  CryptoStore_PutGroupSession ::
    "InboundGroupSession list \<Rightarrow> InboundGroupSession \<Rightarrow> backup_error option"
  StateStore_GetEncryptionEvent :: "RoomID \<Rightarrow> backup_error + EncryptionEventContent option"

text \<open>
  The functions of other packages the key backup code calls, none of them among the
  sources: the public key bytes of a backup key, base64 encoding, the parser of key IDs,
  signature verification, the import of a session key, the decryption of a backup entry
  and the clock.
\<close>

record externals =
  MegolmBackupKey_PublicKey_Bytes :: "byte list \<Rightarrow> byte list"
  base64_EncodeToString :: "byte list \<Rightarrow> string"
  KeyID_Parse :: "KeyID \<Rightarrow> string \<times> string"
  VerifySignatureJSON :: "MegolmAuthData \<Rightarrow> UserID \<Rightarrow> string \<Rightarrow> Ed25519 \<Rightarrow> backup_error + bool"
  InboundGroupSessionImport :: "string \<Rightarrow> backup_error + olm_InboundGroupSession"
  SessionData_Decrypt :: "byte list \<Rightarrow> byte list option \<Rightarrow> backup_error + MegolmSessionData"
  time_Now :: "machine_state \<Rightarrow> int"

section \<open>Key backup: trust\<close>

text \<open>
  One round of the loop over the user's signatures ends in one of three ways:
  \<^verbatim>\<open>continue\<close>, \<^verbatim>\<open>return nil, err\<close>, or \<^verbatim>\<open>break\<close> with the signature verified. The
  round first settles the key to verify with (or ends), then verifies.
\<close>

datatype round = Continue | Return backup_error | Break

definition signature_round ::
  "externals \<Rightarrow> OlmMachine \<Rightarrow> RespRoomKeysVersion \<Rightarrow> CrossSigningPublicKeysCache \<Rightarrow>
   KeyID \<Rightarrow> round" where
  "signature_round ext mach versionInfo crossSigningPubkeys keyID =
     (case KeyID_Parse ext keyID of
        (keyAlg, keyName) \<Rightarrow>
          if keyAlg \<noteq> KeyAlgorithmEd25519 then Continue
          else
            (case (if keyName = cs_MasterKey crossSigningPubkeys then
                     Inr (cs_MasterKey crossSigningPubkeys)
                   else
                     (case CryptoStore_GetDevice mach (Client_UserID mach) keyName of
                        Inl err \<Rightarrow>
                          Inl (Return (FailedToGetDevice (Client_UserID mach) keyName err))
                      | Inr None \<Rightarrow> Inl Continue
                      | Inr (Some device) \<Rightarrow>
                          if \<not> IsDeviceTrusted mach device then Inl Continue
                          else Inr (dev_SigningKey device))) of
               Inl r \<Rightarrow> r
             | Inr key \<Rightarrow>
                 (case VerifySignatureJSON ext (rv_AuthData versionInfo) (Client_UserID mach)
                         keyName key of
                    Inl err \<Rightarrow> Continue
                  | Inr ok \<Rightarrow> if \<not> ok then Continue else Break)))"

text \<open>
  The loop, over the key IDs in the order it visits them: its result is the error it
  returned with, or the value of \<^verbatim>\<open>signatureVerified\<close> when it ends.
\<close>

fun signature_loop ::
  "externals \<Rightarrow> OlmMachine \<Rightarrow> RespRoomKeysVersion \<Rightarrow> CrossSigningPublicKeysCache \<Rightarrow>
   KeyID list \<Rightarrow> backup_error + bool" where
  "signature_loop ext mach versionInfo crossSigningPubkeys [] = Inr False"
| "signature_loop ext mach versionInfo crossSigningPubkeys (keyID # keyIDs) =
     (case signature_round ext mach versionInfo crossSigningPubkeys keyID of
        Continue \<Rightarrow> signature_loop ext mach versionInfo crossSigningPubkeys keyIDs
      | Return err \<Rightarrow> Inl err
      | Break \<Rightarrow> Inr True)"

text \<open>
  Modelled from the spec: the type \<^verbatim>\<open>backup.MegolmBackupKey\<close> and its method
  \<^verbatim>\<open>PublicKey\<close> are not among the sources. By the spec the recovery key is a private
  key from which the public key is derived; the caller holds a pointer to it, \<open>None\<close>
  when it is nil. Deriving reads the key behind the pointer, so on a nil pointer the
  call is a nil pointer dereference, a run-time panic.
\<close>

definition MegolmBackupKey_PublicKey ::
  "externals \<Rightarrow> byte list option \<Rightarrow> backup_error + byte list" where
  "MegolmBackupKey_PublicKey ext megolmBackupKey =
     (case megolmBackupKey of
        None \<Rightarrow> Inl PanicNilDereference
      | Some key \<Rightarrow> Inr (MegolmBackupKey_PublicKey_Bytes ext key))"

text \<open>
  \<^verbatim>\<open>OlmMachine.GetAndVerifyLatestKeyBackupVersion\<close>. The derived public key is computed
  from \<^verbatim>\<open>megolmBackupKey.PublicKey()\<close> before the test \<^verbatim>\<open>megolmBackupKey != nil\<close>.
\<close>

definition GetAndVerifyLatestKeyBackupVersion ::
  "externals \<Rightarrow> OlmMachine \<Rightarrow> byte list option \<Rightarrow> backup_error + RespRoomKeysVersion" where
  "GetAndVerifyLatestKeyBackupVersion ext mach megolmBackupKey =
     (case Client_GetKeyBackupLatestVersion mach of
        Inl err \<Rightarrow> Inl err
      | Inr versionInfo \<Rightarrow>
          if rv_Algorithm versionInfo \<noteq> KeyBackupAlgorithmMegolmBackupV1 then
            Inl (UnsupportedKeyBackupAlgorithm (rv_Algorithm versionInfo))
          else
            (case MegolmBackupKey_PublicKey ext megolmBackupKey of
               Inl panic \<Rightarrow> Inl panic
             | Inr publicKeyBytes \<Rightarrow>
                 (let megolmBackupDerivedPublicKey = base64_EncodeToString ext publicKeyBytes
                  in
                  if megolmBackupKey \<noteq> None
                     \<and> ad_PublicKey (rv_AuthData versionInfo) = megolmBackupDerivedPublicKey
                  then Inr versionInfo
                  else
                    (case ad_Signatures (rv_AuthData versionInfo) (Client_UserID mach) of
                       None \<Rightarrow> Inl (NoSignatureFromUser (Client_UserID mach))
                     | Some userSignatures \<Rightarrow>
                         (case GetOwnCrossSigningPublicKeys mach of
                            None \<Rightarrow> Inl ErrCrossSigningPubkeysNotCached
                          | Some crossSigningPubkeys \<Rightarrow>
                              (case signature_loop ext mach versionInfo crossSigningPubkeys
                                      (map fst userSignatures) of
                                 Inl err \<Rightarrow> Inl err
                               | Inr signatureVerified \<Rightarrow>
                                   if \<not> signatureVerified then
                                     Inl (NoValidSignatureFromUser (Client_UserID mach))
                                   else Inr versionInfo))))))"

section \<open>Key backup: import\<close>

text \<open>
  \<^verbatim>\<open>time.Duration(ms) * time.Millisecond\<close> is a product of 64-bit integers, which wraps;
  \<^verbatim>\<open>Duration.Milliseconds\<close> divides the nanoseconds by one million, truncating towards
  zero.
\<close>

definition Duration_of_Millis :: "64 word \<Rightarrow> 64 word" where
  "Duration_of_Millis ms = ms * 1000000"

definition Duration_Milliseconds :: "64 word \<Rightarrow> 64 word" where
  "Duration_Milliseconds d = word_of_int (sint d sdiv 1000000)"

text \<open>
  \<^verbatim>\<open>OlmMachine.ImportRoomKeyFromBackup\<close>, from the state of the machine before the call
  to the result and the state after it.
\<close>

definition ImportRoomKeyFromBackup ::
  "externals \<Rightarrow> OlmMachine \<Rightarrow> machine_state \<Rightarrow> KeyBackupVersion \<Rightarrow> RoomID \<Rightarrow> SessionID \<Rightarrow>
   MegolmSessionData \<Rightarrow> (backup_error + InboundGroupSession) \<times> machine_state" where
  "ImportRoomKeyFromBackup ext mach st version roomID sessionID keyBackupData =
     (if msd_Algorithm keyBackupData \<noteq> AlgorithmMegolmV1 then
        (Inl (WeirdAlgorithm (msd_Algorithm keyBackupData)), st)
      else
        case InboundGroupSessionImport ext (msd_SessionKey keyBackupData) of
          Inl err \<Rightarrow> (Inl (FailedToImportInboundGroupSession err), st)
        | Inr igsInternal \<Rightarrow>
            if ois_ID igsInternal \<noteq> sessionID then (Inl MismatchedSessionID, st)
            else
              (let (maxAge, maxMessages) =
                     (case StateStore_GetEncryptionEvent mach roomID of
                        Inl err \<Rightarrow> (0, 0)
                      | Inr None \<Rightarrow> (0, 0)
                      | Inr (Some config) \<Rightarrow>
                          (Duration_of_Millis (ee_RotationPeriodMillis config),
                           ee_RotationPeriodMessages config));
                   firstKnownIndex = ois_FirstKnownIndex igsInternal;
                   igs = \<lparr>igs_Internal = igsInternal,
                          igs_SigningKey = msd_SenderClaimedKeys_Ed25519 keyBackupData,
                          igs_SenderKey = msd_SenderKey keyBackupData,
                          igs_RoomID = roomID,
                          igs_ForwardingChains =
                            msd_ForwardingKeyChain keyBackupData @ [msd_SenderKey keyBackupData],
                          igs_id = sessionID,
                          igs_ReceivedAt = time_Now ext st,
                          igs_MaxAge = Duration_Milliseconds maxAge,
                          igs_MaxMessages = maxMessages,
                          igs_KeyBackupVersion = version\<rparr>;
                   st1 = st\<lparr>PutGroupSession_calls := PutGroupSession_calls st @ [igs]\<rparr>
               in case CryptoStore_PutGroupSession mach (PutGroupSession_calls st) igs of
                    Some err \<Rightarrow> (Inl (FailedToStoreInboundGroupSession err), st1)
                  | None \<Rightarrow>
                      (Inr igs,
                       st1\<lparr>markSessionReceived_calls :=
                             markSessionReceived_calls st1 @ [(roomID, sessionID, firstKnownIndex)]\<rparr>)))"

text \<open>
  \<^verbatim>\<open>OlmMachine.GetAndStoreKeyBackup\<close>. The body of the inner loop works on the state
  of the machine and the two counters \<^verbatim>\<open>count\<close> and \<^verbatim>\<open>failedCount\<close>, which are
  Go \<^verbatim>\<open>int\<close>s counting the entries of one payload and are taken not to overflow.
\<close>

definition restore_entry ::
  "externals \<Rightarrow> OlmMachine \<Rightarrow> KeyBackupVersion \<Rightarrow> byte list option \<Rightarrow> RoomID \<Rightarrow>
   SessionID \<times> KeyBackupData \<Rightarrow> machine_state \<times> int \<times> int \<Rightarrow> machine_state \<times> int \<times> int" where
  "restore_entry ext mach version megolmBackupKey roomID entry acc =
     (case (entry, acc) of
        ((sessionID, keyBackupData), (st, count, failedCount)) \<Rightarrow>
          (case SessionData_Decrypt ext (kbd_SessionData keyBackupData) megolmBackupKey of
             Inl err \<Rightarrow> (st, count, failedCount + 1)
           | Inr sessionData \<Rightarrow>
               (case ImportRoomKeyFromBackup ext mach st version roomID sessionID sessionData of
                  (Inl err, st') \<Rightarrow> (st', count, failedCount + 1)
                | (Inr igs, st') \<Rightarrow> (st', count + 1, failedCount))))"

fun restore_sessions ::
  "externals \<Rightarrow> OlmMachine \<Rightarrow> KeyBackupVersion \<Rightarrow> byte list option \<Rightarrow> RoomID \<Rightarrow>
   (SessionID \<times> KeyBackupData) list \<Rightarrow> machine_state \<times> int \<times> int \<Rightarrow>
   machine_state \<times> int \<times> int" where
  "restore_sessions ext mach version megolmBackupKey roomID [] acc = acc"
| "restore_sessions ext mach version megolmBackupKey roomID (entry # entries) acc =
     restore_sessions ext mach version megolmBackupKey roomID entries
       (restore_entry ext mach version megolmBackupKey roomID entry acc)"

fun restore_rooms ::
  "externals \<Rightarrow> OlmMachine \<Rightarrow> KeyBackupVersion \<Rightarrow> byte list option \<Rightarrow>
   (RoomID \<times> RoomKeyBackup) list \<Rightarrow> machine_state \<times> int \<times> int \<Rightarrow>
   machine_state \<times> int \<times> int" where
  "restore_rooms ext mach version megolmBackupKey [] acc = acc"
| "restore_rooms ext mach version megolmBackupKey ((roomID, backup) # rooms) acc =
     restore_rooms ext mach version megolmBackupKey rooms
       (restore_sessions ext mach version megolmBackupKey roomID (rkb_Sessions backup) acc)"

text \<open>
  The result is the returned error, the fields \<^verbatim>\<open>count\<close> and \<^verbatim>\<open>failed_count\<close> of the
  final log event (\<open>None\<close> when the function returns before logging), and the state
  of the machine.
\<close>

definition GetAndStoreKeyBackup ::
  "externals \<Rightarrow> OlmMachine \<Rightarrow> machine_state \<Rightarrow> KeyBackupVersion \<Rightarrow> byte list option \<Rightarrow>
   backup_error option \<times> (int \<times> int) option \<times> machine_state" where
  "GetAndStoreKeyBackup ext mach st version megolmBackupKey =
     (case Client_GetKeyBackup mach version of
        Inl err \<Rightarrow> (Some err, None, st)
      | Inr keys \<Rightarrow>
          (case restore_rooms ext mach version megolmBackupKey (rb_Rooms keys) (st, 0, 0) of
             (st', count, failedCount) \<Rightarrow> (None, Some (count, failedCount), st')))"

text \<open>
  \<^verbatim>\<open>OlmMachine.DownloadAndStoreLatestKeyBackup\<close>. The verified version info is never
  nil when the error is nil, so the branch for a nil version info is not taken.
\<close>

definition DownloadAndStoreLatestKeyBackup ::
  "externals \<Rightarrow> OlmMachine \<Rightarrow> machine_state \<Rightarrow> byte list option \<Rightarrow>
   (KeyBackupVersion \<times> backup_error option) \<times> machine_state" where
  "DownloadAndStoreLatestKeyBackup ext mach st megolmBackupKey =
     (case GetAndVerifyLatestKeyBackupVersion ext mach megolmBackupKey of
        Inl err \<Rightarrow> (([], Some err), st)
      | Inr versionInfo \<Rightarrow>
          (case GetAndStoreKeyBackup ext mach st (rv_Version versionInfo) megolmBackupKey of
             (err, logged, st') \<Rightarrow> ((rv_Version versionInfo, err), st')))"

text \<open>
  The entries of a backup payload, room by room, in the order the loops visit them.
\<close>

definition entries_of :: "RespRoomKeysBackup \<Rightarrow> (RoomID \<times> SessionID \<times> KeyBackupData) list" where
  "entries_of keys =
     concat (map (\<lambda>(roomID, backup). map (Pair roomID) (rkb_Sessions backup)) (rb_Rooms keys))"

section \<open>Example collaborators\<close>

text \<open>
  A small world to run the key backup functions in. Key IDs are split at the first
  colon; a signature verifies exactly with the key \<open>''good''\<close>; a session key imports
  to a session whose ID is the key itself, unless it is empty; a backup entry decrypts
  to a megolm-v1 session whose key is one letter per byte, unless it is empty.
\<close>

definition example_externals :: externals where
  "example_externals =
     \<lparr>MegolmBackupKey_PublicKey_Bytes = (\<lambda>k. k),
      base64_EncodeToString = map (\<lambda>b. if b = 0 then CHR ''A'' else CHR ''B''),
      KeyID_Parse =
        (\<lambda>s. (takeWhile (\<lambda>c. c \<noteq> CHR '':'') s, drop 1 (dropWhile (\<lambda>c. c \<noteq> CHR '':'') s))),
      VerifySignatureJSON = (\<lambda>ad uid name key. Inr (key = ''good'')),
      InboundGroupSessionImport =
        (\<lambda>sk. if sk = [] then Inl (ExternalError ''bad session key'')
              else Inr \<lparr>ois_ID = sk, ois_FirstKnownIndex = 0\<rparr>),
      SessionData_Decrypt =
        (\<lambda>ct key. if ct = [] then Inl (ExternalError ''bad mac'')
                  else Inr \<lparr>msd_Algorithm = AlgorithmMegolmV1,
                            msd_ForwardingKeyChain = [],
                            msd_SenderClaimedKeys_Ed25519 = ''claimed'',
                            msd_SenderKey = ''sender'',
                            msd_SessionKey = map (\<lambda>b. if b = 0 then CHR ''A'' else CHR ''B'') ct\<rparr>),
      time_Now = (\<lambda>st. int (length (PutGroupSession_calls st)))\<rparr>"

text \<open>
  The latest backup version, signed by user \<open>''@u''\<close> under the given key IDs, and a
  backup of two rooms with four entries: one does not decrypt, one has a session ID
  that is not the one its key gives.
\<close>

definition example_version :: "(KeyID \<times> string) list \<Rightarrow> RespRoomKeysVersion" where
  "example_version sigs =
     \<lparr>rv_Algorithm = KeyBackupAlgorithmMegolmBackupV1,
      rv_AuthData = \<lparr>ad_PublicKey = ''AB'', ad_Signatures = [''@u'' \<mapsto> sigs]\<rparr>,
      rv_Count = 4, rv_ETag = ''1'', rv_Version = ''7''\<rparr>"

definition example_backup :: RespRoomKeysBackup where
  "example_backup =
     \<lparr>rb_Rooms =
        [(''!r1'', \<lparr>rkb_Sessions = [(''A'', \<lparr>kbd_SessionData = [0]\<rparr>),
                                    (''x'', \<lparr>kbd_SessionData = []\<rparr>)]\<rparr>),
         (''!r2'', \<lparr>rkb_Sessions = [(''AB'', \<lparr>kbd_SessionData = [0, 1]\<rparr>),
                                    (''y'', \<lparr>kbd_SessionData = [1]\<rparr>)]\<rparr>)]\<rparr>"

text \<open>
  A machine of user \<open>''@u''\<close> with master key \<open>''good''\<close>: device \<open>''TRUSTED''\<close> is
  trusted and signs with \<open>''good''\<close>, device \<open>''FORGED''\<close> is trusted and signs with another
  key, device \<open>''UNTRUSTED''\<close> is not trusted, the lookup of device \<open>''BROKEN''\<close> fails, and
  no other device is known.
\<close>

definition example_machine :: "(KeyID \<times> string) list \<Rightarrow> OlmMachine" where
  "example_machine sigs =
     \<lparr>Client_UserID = ''@u'',
      Client_GetKeyBackupLatestVersion = Inr (example_version sigs),
      Client_GetKeyBackup =
        (\<lambda>v. if v = ''7'' then Inr example_backup else Inl (ExternalError ''not found'')),
      GetOwnCrossSigningPublicKeys =
        Some \<lparr>cs_MasterKey = ''good'', cs_SelfSigningKey = ''ssk'', cs_UserSigningKey = ''usk''\<rparr>,
      CryptoStore_GetDevice =
        (\<lambda>uid name.
           if name = ''TRUSTED'' then Inr (Some \<lparr>dev_DeviceID = name, dev_SigningKey = ''good''\<rparr>)
           else if name = ''FORGED'' then Inr (Some \<lparr>dev_DeviceID = name, dev_SigningKey = ''bad''\<rparr>)
           else if name = ''UNTRUSTED'' then
             Inr (Some \<lparr>dev_DeviceID = name, dev_SigningKey = ''good''\<rparr>)
           else if name = ''BROKEN'' then Inl (ExternalError ''database is locked'')
           else Inr None),
      IsDeviceTrusted = (\<lambda>d. dev_DeviceID d \<noteq> ''UNTRUSTED''),
      CryptoStore_PutGroupSession = (\<lambda>calls igs. None),
      StateStore_GetEncryptionEvent = (\<lambda>room. Inr None)\<rparr>"

definition empty_state :: machine_state where
  "empty_state = \<lparr>PutGroupSession_calls = [], markSessionReceived_calls = []\<rparr>"

section \<open>Properties of the chain key\<close>

text \<open>
  C7. Advancing a chain key replaces the key by the HMAC-SHA256 of the old key over the
  single byte 0x02 and adds one to the index. The result is a function of the chain key
  alone (equal states advance to equal states), there is no error result, and two
  advances leave an index different from the one started from.
\<close>

theorem advance_spec:
  "advance H c = \<lparr>ck_Index = ck_Index c + 1, ck_Key = H (ck_Key c) [0x02]\<rparr>
   \<and> (\<forall>c'. c' = c \<longrightarrow> advance H c' = advance H c)
   \<and> ck_Index (advance H (advance H c)) \<noteq> ck_Index c"
  by (simp add: advance_def chainKeySeed_def Let_def)

theorem advance_spec_witness:
  "advance (\<lambda>k d. d @ k) \<lparr>ck_Index = 7, ck_Key = [1, 2]\<rparr>
     = \<lparr>ck_Index = 8, ck_Key = [2, 1, 2]\<rparr>
   \<and> ck_Index (advance (\<lambda>k d. d @ k) (advance (\<lambda>k d. d @ k) \<lparr>ck_Index = 7, ck_Key = [1, 2]\<rparr>))
     \<noteq> 7"
  using advance_spec [of "\<lambda>k d. d @ k" "\<lparr>ck_Index = 7, ck_Key = [1, 2]\<rparr>"]
  by (simp add: advance_def chainKeySeed_def Let_def)

text \<open>
  C10. At the largest index, 4294967295, advancing wraps the index around to 0: the
  increment is modulo \<open>2 ^ 32\<close>, and the result is a chain key, never an error.
\<close>

theorem advance_wraps_at_max:
  "ck_Index (advance H \<lparr>ck_Index = 4294967295, ck_Key = k\<rparr>) = 0
   \<and> ck_Key (advance H \<lparr>ck_Index = 4294967295, ck_Key = k\<rparr>) = H k [0x02]
   \<and> unat (ck_Index (advance H c)) = (unat (ck_Index c) + 1) mod 2 ^ 32"
  by (simp add: advance_def chainKeySeed_def Let_def unat_word_ariths)

section \<open>Properties of the pickle format\<close>

subsection \<open>The primitives\<close>

lemma copy_go_fits:
  "length src \<le> length dst \<Longrightarrow> copy_go dst src = (src @ drop (length src) dst, length src)"
  by (simp add: copy_go_def Let_def min_def)

lemma length_BigEndian_PutUint32 [simp]: "length (BigEndian_PutUint32 v) = 4"
  by (simp add: BigEndian_PutUint32_def)

lemma PickleUInt32_fits:
  "4 \<le> length target \<Longrightarrow> PickleUInt32 v target = (BigEndian_PutUint32 v @ drop 4 target, 4)"
  by (simp add: PickleUInt32_def copy_go_fits)

lemma big_endian_bytes_join:
  "push_bit 24 (ucast (ucast (drop_bit 24 v) :: byte))
     OR push_bit 16 (ucast (ucast (drop_bit 16 v) :: byte))
     OR push_bit 8 (ucast (ucast (drop_bit 8 v) :: byte))
     OR ucast (ucast v :: byte) = (v :: uint32)"
proof (rule bit_word_eqI)
  fix n :: nat
  assume "n < LENGTH(32)"
  then have n: "n < 32" by simp
  consider "n < 8" | "8 \<le> n" "n < 16" | "16 \<le> n" "n < 24" | "24 \<le> n" "n < 32"
    using n by linarith
  then show "bit (push_bit 24 (ucast (ucast (drop_bit 24 v) :: byte))
     OR push_bit 16 (ucast (ucast (drop_bit 16 v) :: byte))
     OR push_bit 8 (ucast (ucast (drop_bit 8 v) :: byte))
     OR (ucast (ucast v :: byte) :: uint32)) n = bit v n"
    by cases (auto simp: bit_simps)
qed

lemma UnpickleUInt32_BigEndian:
  "UnpickleUInt32 (BigEndian_PutUint32 v @ rest) = (v, 4, None)"
  by (simp add: UnpickleUInt32_def BigEndian_PutUint32_def big_endian_bytes_join)

lemma UnpickleUInt32_short:
  "length val < 4 \<Longrightarrow> UnpickleUInt32 val = (0, 0, Some ErrValueTooShort)"
  by (simp add: UnpickleUInt32_def)

lemma Curve25519PublicKey_PickleLibOlm_fits:
  "length c = 32 \<Longrightarrow> 32 \<le> length target \<Longrightarrow>
   Curve25519PublicKey_PickleLibOlm c target = (c @ drop 32 target, 32, None)"
  by (simp add: Curve25519PublicKey_PickleLibOlm_def Curve25519PubKeyLength_def
      PickleBytes_def copy_go_fits)

lemma Curve25519PublicKey_UnpickleLibOlm_fits:
  "32 \<le> length val \<Longrightarrow>
   Curve25519PublicKey_UnpickleLibOlm c val = (take 32 val, 32, None)"
  by (simp add: Curve25519PublicKey_UnpickleLibOlm_def Curve25519PubKeyLength_def
      UnpickleBytes_def)

lemma Curve25519PublicKey_UnpickleLibOlm_short:
  "length val < 32 \<Longrightarrow>
   Curve25519PublicKey_UnpickleLibOlm c val = (c, 0, Some ErrValueTooShort)"
  by (simp add: Curve25519PublicKey_UnpickleLibOlm_def Curve25519PubKeyLength_def
      UnpickleBytes_def)

subsection \<open>Chain keys\<close>

lemma chainKey_PickleLibOlm_fits:
  assumes "length (ck_Key c) = 32" and "36 \<le> length target"
  shows "chainKey_PickleLibOlm c target =
           (ck_Key c @ BigEndian_PutUint32 (ck_Index c) @ drop 36 target, 36, None)"
  using assms
  by (simp add: chainKey_PickleLibOlm_def chainKeyPickleLength_def Curve25519PubKeyLength_def
      PickleUInt32Length_def Curve25519PublicKey_PickleLibOlm_fits slice_from_def
      PickleUInt32_fits)

lemma chainKey_UnpickleLibOlm_encoded:
  assumes "length k = 32"
  shows "chainKey_UnpickleLibOlm r (k @ BigEndian_PutUint32 i @ rest) =
           (r\<lparr>ck_Key := k, ck_Index := i\<rparr>, 36, None)"
  using assms
  by (simp add: chainKey_UnpickleLibOlm_def Curve25519PublicKey_UnpickleLibOlm_fits
      slice_from_def UnpickleUInt32_BigEndian)

lemma chainKey_UnpickleLibOlm_cases:
  "chainKey_UnpickleLibOlm r val =
     (if length val < 32 then (r, 0, Some ErrValueTooShort)
      else if length val < 36 then
        (r\<lparr>ck_Key := take 32 val, ck_Index := 0\<rparr>, 0, Some ErrValueTooShort)
      else (r\<lparr>ck_Key := take 32 val, ck_Index := fst (UnpickleUInt32 (drop 32 val))\<rparr>,
            36, None))"
proof -
  consider "length val < 32" | "32 \<le> length val" "length val < 36" | "36 \<le> length val"
    by linarith
  then show ?thesis
  proof cases
    case 1
    then show ?thesis
      by (simp add: chainKey_UnpickleLibOlm_def Curve25519PublicKey_UnpickleLibOlm_short)
  next
    case 2
    then have "length (drop 32 val) < 4" by simp
    then have "UnpickleUInt32 (drop 32 val) = (0, 0, Some ErrValueTooShort)"
      by (rule UnpickleUInt32_short)
    with 2 show ?thesis
      by (simp add: chainKey_UnpickleLibOlm_def Curve25519PublicKey_UnpickleLibOlm_fits
          slice_from_def)
  next
    case 3
    then have "\<not> length (drop 32 val) < 4" by simp
    then obtain i where i: "UnpickleUInt32 (drop 32 val) = (i, 4, None)"
      by (simp add: UnpickleUInt32_def)
    with 3 show ?thesis
      by (simp add: chainKey_UnpickleLibOlm_def Curve25519PublicKey_UnpickleLibOlm_fits
          slice_from_def)
  qed
qed

text \<open>
  C6. A chain key with a 32-byte key, pickled into a target of at least the chain key
  pickle length, succeeds and writes exactly 36 bytes: the 32 bytes of the key, then the
  4 bytes of the index, the rest of the target staying as it was. Unpickling the target,
  or only the 36 bytes written, into any chain key returns the original chain key, with
  36 bytes read.
\<close>

theorem chainKey_roundtrip:
  fixes c r :: chainKey
  assumes "length (ck_Key c) = 32" and "chainKeyPickleLength \<le> length target"
  shows "chainKey_PickleLibOlm c target =
           (ck_Key c @ BigEndian_PutUint32 (ck_Index c) @ drop 36 target, 36, None)
         \<and> length (ck_Key c @ BigEndian_PutUint32 (ck_Index c)) = 36
         \<and> chainKey_UnpickleLibOlm r (fst (chainKey_PickleLibOlm c target)) = (c, 36, None)
         \<and> chainKey_UnpickleLibOlm r (take 36 (fst (chainKey_PickleLibOlm c target)))
             = (c, 36, None)"
proof -
  have len: "chainKeyPickleLength = 36"
    by (simp add: chainKeyPickleLength_def Curve25519PubKeyLength_def PickleUInt32Length_def)
  with assms have t: "36 \<le> length target" by simp
  have p: "chainKey_PickleLibOlm c target =
           (ck_Key c @ BigEndian_PutUint32 (ck_Index c) @ drop 36 target, 36, None)"
    using assms(1) t by (rule chainKey_PickleLibOlm_fits)
  have u1: "chainKey_UnpickleLibOlm r (fst (chainKey_PickleLibOlm c target)) = (c, 36, None)"
    using assms(1) by (simp add: p chainKey_UnpickleLibOlm_encoded)
  have "take 36 (fst (chainKey_PickleLibOlm c target))
          = ck_Key c @ BigEndian_PutUint32 (ck_Index c) @ []"
    using assms(1) by (simp add: p)
  then have u2: "chainKey_UnpickleLibOlm r (take 36 (fst (chainKey_PickleLibOlm c target)))
                   = (c, 36, None)"
    using assms(1) chainKey_UnpickleLibOlm_encoded [of "ck_Key c" r "ck_Index c" "[]"] by simp
  show ?thesis using p u1 u2 assms(1) by simp
qed

theorem chainKey_roundtrip_witness:
  "chainKey_PickleLibOlm \<lparr>ck_Index = 0x01020304, ck_Key = replicate 32 7\<rparr> (replicate 40 9)
     = (replicate 32 7 @ [1, 2, 3, 4] @ replicate 4 9, 36, None)
   \<and> chainKey_UnpickleLibOlm \<lparr>ck_Index = 0, ck_Key = []\<rparr>
        (fst (chainKey_PickleLibOlm \<lparr>ck_Index = 0x01020304, ck_Key = replicate 32 7\<rparr>
               (replicate 40 9)))
     = (\<lparr>ck_Index = 0x01020304, ck_Key = replicate 32 7\<rparr>, 36, None)"
proof -
  have be: "BigEndian_PutUint32 0x01020304 = [1, 2, 3, 4]"
    by code_simp
  have len: "chainKeyPickleLength \<le> length (replicate 40 (9 :: byte))"
    by (simp add: chainKeyPickleLength_def Curve25519PubKeyLength_def PickleUInt32Length_def)
  have key: "length (ck_Key \<lparr>ck_Index = 0x01020304, ck_Key = replicate 32 7\<rparr>) = 32"
    by simp
  note t = chainKey_roundtrip [OF key len, of "\<lparr>ck_Index = 0, ck_Key = []\<rparr>"]
  have p: "chainKey_PickleLibOlm \<lparr>ck_Index = 0x01020304, ck_Key = replicate 32 7\<rparr>
             (replicate 40 9)
           = (replicate 32 7 @ [1, 2, 3, 4] @ replicate 4 9, 36, None)"
    using t by (simp add: be)
  have u: "chainKey_UnpickleLibOlm \<lparr>ck_Index = 0, ck_Key = []\<rparr>
        (fst (chainKey_PickleLibOlm \<lparr>ck_Index = 0x01020304, ck_Key = replicate 32 7\<rparr>
               (replicate 40 9)))
     = (\<lparr>ck_Index = 0x01020304, ck_Key = replicate 32 7\<rparr>, 36, None)"
    using t by blast
  show ?thesis by (rule conjI [OF p u])
qed

subsection \<open>Message keys\<close>

text \<open>
  C8. A message key whose key is not 32 bytes long, pickled into a target of at least
  the message key pickle length, succeeds: it writes 32 zero bytes in place of the key,
  then the 4 bytes of the index, 36 bytes in all, and leaves the rest of the target as
  it was.
\<close>

theorem messageKey_PickleLibOlm_placeholder:
  assumes "length (mk_Key m) \<noteq> messageKeyLength"
    and "messageKeyPickleLength \<le> length target"
  shows "messageKey_PickleLibOlm m target =
           (replicate 32 0 @ BigEndian_PutUint32 (mk_Index m) @ drop 36 target, 36, None)"
proof -
  have len: "messageKeyPickleLength = 36"
    by (simp add: messageKeyPickleLength_def messageKeyLength_def PickleUInt32Length_def)
  with assms have t: "36 \<le> length target" by simp
  have zeros: "PickleBytes (replicate messageKeyLength 0) target =
                 (replicate 32 0 @ drop 32 target, 32)"
    using t by (simp add: PickleBytes_def copy_go_fits messageKeyLength_def)
  show ?thesis
    using assms(1) t
    by (simp add: messageKey_PickleLibOlm_def len zeros slice_from_def PickleUInt32_fits)
qed

theorem messageKey_PickleLibOlm_placeholder_witness:
  "messageKey_PickleLibOlm \<lparr>mk_Index = 3, mk_Key = replicate 31 2\<rparr> (replicate 38 9)
     = (replicate 32 0 @ [0, 0, 0, 3] @ replicate 2 9, 36, None)"
  using messageKey_PickleLibOlm_placeholder [of "\<lparr>mk_Index = 3, mk_Key = replicate 31 2\<rparr>"
      "replicate 38 9"]
  by (simp add: messageKeyPickleLength_def messageKeyLength_def PickleUInt32Length_def
      BigEndian_PutUint32_def drop_bit_eq_div)

subsection \<open>Composite values\<close>

text \<open>
  C1. The claim is that the receiver chain, the skipped message key and the message key
  pickle to the concatenation of their fields' encodings and unpickle to the original
  value. The code does otherwise. Pickling the receiver chain with ratchet key
  \<open>1, ..., 1\<close>, chain key \<open>2, ..., 2\<close> and index 3 into 68 zero bytes reports 68 bytes
  written, but the chain key lies at offset 0, over the ratchet key, and the last 32
  bytes are untouched; unpickling gives another receiver chain. The skipped message key
  does the same. The message key pickles to key and index, but unpickling reads the
  index from the first four bytes of the key.
\<close>

theorem pickle_not_concatenation:
  "receiverChain_PickleLibOlm
       \<lparr>rc_RKey = replicate 32 1, rc_CKey = \<lparr>ck_Index = 3, ck_Key = replicate 32 2\<rparr>\<rparr>
       (replicate 68 0)
     = (replicate 32 2 @ [0, 0, 0, 3] @ replicate 32 0, 68, None)
   \<and> receiverChain_UnpickleLibOlm \<lparr>rc_RKey = [], rc_CKey = \<lparr>ck_Index = 0, ck_Key = []\<rparr>\<rparr>
       (replicate 32 2 @ [0, 0, 0, 3] @ replicate 32 0)
     = (\<lparr>rc_RKey = replicate 32 2,
          rc_CKey = \<lparr>ck_Index = 0, ck_Key = [0, 0, 0, 3] @ replicate 28 0\<rparr>\<rparr>, 68, None)
   \<and> skippedMessageKey_PickleLibOlm
       \<lparr>sk_RKey = replicate 32 1, sk_MKey = \<lparr>mk_Index = 3, mk_Key = replicate 32 2\<rparr>\<rparr>
       (replicate 68 0)
     = (replicate 32 2 @ [0, 0, 0, 3] @ replicate 32 0, 68, None)
   \<and> skippedMessageKey_UnpickleLibOlm \<lparr>sk_RKey = [], sk_MKey = \<lparr>mk_Index = 0, mk_Key = []\<rparr>\<rparr>
       (replicate 32 2 @ [0, 0, 0, 3] @ replicate 32 0)
     = (\<lparr>sk_RKey = replicate 32 2,
          sk_MKey = \<lparr>mk_Index = 3, mk_Key = [0, 0, 0, 3] @ replicate 28 0\<rparr>\<rparr>, 68, None)
   \<and> messageKey_PickleLibOlm \<lparr>mk_Index = 3, mk_Key = replicate 32 2\<rparr> (replicate 36 0)
     = (replicate 32 2 @ [0, 0, 0, 3], 36, None)
   \<and> messageKey_UnpickleLibOlm \<lparr>mk_Index = 0, mk_Key = []\<rparr> (replicate 32 2 @ [0, 0, 0, 3])
     = (\<lparr>mk_Index = 0x02020202, mk_Key = replicate 32 2\<rparr>, 36, None)"
  by code_simp

subsection \<open>Decoding errors\<close>

lemma senderChain_UnpickleLibOlm_first_fails:
  assumes "kpUnpickle (sc_RKey s) val = (k, n, Some e)"
  shows "senderChain_UnpickleLibOlm kpUnpickle s val = (s\<lparr>sc_RKey := k\<rparr>, 0, Some e)"
  using assms by (simp add: senderChain_UnpickleLibOlm_def)

lemma senderChain_UnpickleLibOlm_second_fails:
  assumes "kpUnpickle (sc_RKey s) val = (k, n, None)"
    and "n \<le> length val" and "length val < n + 36"
  shows "senderChain_UnpickleLibOlm kpUnpickle s val =
           (s\<lparr>sc_RKey := k, sc_CKey := fst (chainKey_UnpickleLibOlm (sc_CKey s) (drop n val))\<rparr>,
            0, Some ErrValueTooShort)"
proof -
  have "length (drop n val) < 36"
    using assms(2,3) by simp
  then have "snd (chainKey_UnpickleLibOlm (sc_CKey s) (drop n val))
               = (0, Some ErrValueTooShort)"
    by (simp add: chainKey_UnpickleLibOlm_cases)
  then obtain ck where ck: "chainKey_UnpickleLibOlm (sc_CKey s) (drop n val) =
               (ck, 0, Some ErrValueTooShort)"
    by (cases "chainKey_UnpickleLibOlm (sc_CKey s) (drop n val)") simp
  then show ?thesis
    using assms(1,2)
    by (simp add: senderChain_UnpickleLibOlm_def slice_from_def)
qed

text \<open>
  C9, as claimed: a decoder that returns an error leaves the receiver with no field
  modified. It fails on a chain key with index 5 and key \<open>1, ..., 1\<close> decoding 33 bytes
  \<open>9, ..., 9\<close>: the key is read, the index is missing, the call returns the error, and
  the receiver holds the new key and index 0.
\<close>

theorem chainKey_UnpickleLibOlm_partial:
  "chainKey_UnpickleLibOlm \<lparr>ck_Index = 5, ck_Key = replicate 32 1\<rparr> (replicate 33 9)
     = (\<lparr>ck_Index = 0, ck_Key = replicate 32 9\<rparr>, 0, Some ErrValueTooShort)
   \<and> \<lparr>ck_Index = 0, ck_Key = replicate 32 9\<rparr>
       \<noteq> \<lparr>ck_Index = 5, ck_Key = replicate 32 (1 :: byte)\<rparr>"
  by code_simp

text \<open>
  C9, amended: a decoder that returns an error reports 0 bytes read and leaves the
  receiver with the fields decoded before the failing one already stored. A chain key
  decoding fewer than 32 bytes is unchanged; decoding 32 to 35 bytes it holds the first
  32 bytes as its key and index 0; from 36 bytes on there is no error. A sender chain
  whose key pair fails to decode keeps its chain key and its flag; one whose key pair
  decodes from \<open>n\<close> bytes and whose chain key then fails holds the decoded key pair and
  the chain key as the failed chain key decoder left it.
\<close>

theorem UnpickleLibOlm_error_keeps_decoded_prefix:
  "(length val < 32 \<longrightarrow> chainKey_UnpickleLibOlm r val = (r, 0, Some ErrValueTooShort))
   \<and> (32 \<le> length val \<and> length val < 36 \<longrightarrow>
        chainKey_UnpickleLibOlm r val =
          (r\<lparr>ck_Key := take 32 val, ck_Index := 0\<rparr>, 0, Some ErrValueTooShort))
   \<and> (36 \<le> length val \<longrightarrow> snd (snd (chainKey_UnpickleLibOlm r val)) = None)
   \<and> (kpUnpickle (sc_RKey s) val = (k, n, Some e) \<longrightarrow>
        senderChain_UnpickleLibOlm kpUnpickle s val = (s\<lparr>sc_RKey := k\<rparr>, 0, Some e))
   \<and> (kpUnpickle (sc_RKey s) val = (k, n, None) \<and> n \<le> length val \<and> length val < n + 36 \<longrightarrow>
        senderChain_UnpickleLibOlm kpUnpickle s val =
          (s\<lparr>sc_RKey := k, sc_CKey := fst (chainKey_UnpickleLibOlm (sc_CKey s) (drop n val))\<rparr>,
           0, Some ErrValueTooShort))"
  using senderChain_UnpickleLibOlm_first_fails [of kpUnpickle s val k n e]
    senderChain_UnpickleLibOlm_second_fails [of kpUnpickle s val k n]
  by (simp add: chainKey_UnpickleLibOlm_cases)

theorem UnpickleLibOlm_error_keeps_decoded_prefix_witness:
  "chainKey_UnpickleLibOlm \<lparr>ck_Index = 5, ck_Key = replicate 32 1\<rparr> (replicate 10 9)
     = (\<lparr>ck_Index = 5, ck_Key = replicate 32 1\<rparr>, 0, Some ErrValueTooShort)
   \<and> chainKey_UnpickleLibOlm \<lparr>ck_Index = 5, ck_Key = replicate 32 1\<rparr> (replicate 33 9)
     = (\<lparr>ck_Index = 0, ck_Key = replicate 32 9\<rparr>, 0, Some ErrValueTooShort)
   \<and> snd (snd (chainKey_UnpickleLibOlm \<lparr>ck_Index = 5, ck_Key = replicate 32 1\<rparr> (replicate 36 9)))
     = None
   \<and> senderChain_UnpickleLibOlm
        (\<lambda>kp v. if length v < 2 then (kp, 0, Some ErrValueTooShort) else (take 2 v, 2, None))
        \<lparr>sc_RKey = [1, 1], sc_CKey = \<lparr>ck_Index = 5, ck_Key = replicate 32 1\<rparr>, sc_IsSet = True\<rparr>
        [9]
     = (\<lparr>sc_RKey = [1, 1], sc_CKey = \<lparr>ck_Index = 5, ck_Key = replicate 32 1\<rparr>, sc_IsSet = True\<rparr>,
        0, Some ErrValueTooShort)
   \<and> senderChain_UnpickleLibOlm
        (\<lambda>kp v. if length v < 2 then (kp, 0, Some ErrValueTooShort) else (take 2 v, 2, None))
        \<lparr>sc_RKey = [1, 1], sc_CKey = \<lparr>ck_Index = 5, ck_Key = replicate 32 1\<rparr>, sc_IsSet = True\<rparr>
        [9, 9, 9]
     = (\<lparr>sc_RKey = [9, 9], sc_CKey = \<lparr>ck_Index = 5, ck_Key = replicate 32 1\<rparr>, sc_IsSet = True\<rparr>,
        0, Some ErrValueTooShort)"
  using UnpickleLibOlm_error_keeps_decoded_prefix
      [where val = "replicate 10 9" and r = "\<lparr>ck_Index = 5, ck_Key = replicate 32 1\<rparr>"
         and kpUnpickle = "\<lambda>kp v. if length v < 2 then (kp, 0, Some ErrValueTooShort)
                                   else (take 2 v, 2, None)"
         and s = "\<lparr>sc_RKey = [1, 1], sc_CKey = \<lparr>ck_Index = 5, ck_Key = replicate 32 1\<rparr>,
                    sc_IsSet = True\<rparr>"
         and k = "[9, 9]" and n = 2 and e = ErrValueTooShort]
    UnpickleLibOlm_error_keeps_decoded_prefix
      [where val = "replicate 33 9" and r = "\<lparr>ck_Index = 5, ck_Key = replicate 32 1\<rparr>"
         and kpUnpickle = "\<lambda>kp v. if length v < 2 then (kp, 0, Some ErrValueTooShort)
                                   else (take 2 v, 2, None)"
         and s = "\<lparr>sc_RKey = [1, 1], sc_CKey = \<lparr>ck_Index = 5, ck_Key = replicate 32 1\<rparr>,
                    sc_IsSet = True\<rparr>"
         and k = "[9, 9]" and n = 2 and e = ErrValueTooShort]
    UnpickleLibOlm_error_keeps_decoded_prefix
      [where val = "replicate 36 9" and r = "\<lparr>ck_Index = 5, ck_Key = replicate 32 1\<rparr>"
         and kpUnpickle = "\<lambda>kp v. if length v < 2 then (kp, 0, Some ErrValueTooShort)
                                   else (take 2 v, 2, None)"
         and s = "\<lparr>sc_RKey = [1, 1], sc_CKey = \<lparr>ck_Index = 5, ck_Key = replicate 32 1\<rparr>,
                    sc_IsSet = True\<rparr>"
         and k = "[9, 9]" and n = 2 and e = ErrValueTooShort]
    UnpickleLibOlm_error_keeps_decoded_prefix
      [where val = "[9]" and r = "\<lparr>ck_Index = 5, ck_Key = replicate 32 1\<rparr>"
         and kpUnpickle = "\<lambda>kp v. if length v < 2 then (kp, 0, Some ErrValueTooShort)
                                   else (take 2 v, 2, None)"
         and s = "\<lparr>sc_RKey = [1, 1], sc_CKey = \<lparr>ck_Index = 5, ck_Key = replicate 32 1\<rparr>,
                    sc_IsSet = True\<rparr>"
         and k = "[1, 1]" and n = 0 and e = ErrValueTooShort]
    UnpickleLibOlm_error_keeps_decoded_prefix
      [where val = "[9, 9, 9]" and r = "\<lparr>ck_Index = 5, ck_Key = replicate 32 1\<rparr>"
         and kpUnpickle = "\<lambda>kp v. if length v < 2 then (kp, 0, Some ErrValueTooShort)
                                   else (take 2 v, 2, None)"
         and s = "\<lparr>sc_RKey = [1, 1], sc_CKey = \<lparr>ck_Index = 5, ck_Key = replicate 32 1\<rparr>,
                    sc_IsSet = True\<rparr>"
         and k = "[9, 9]" and n = 2 and e = ErrValueTooShort]
  by (simp add: chainKey_UnpickleLibOlm_cases)

section \<open>Properties of the key backup\<close>

subsection \<open>Trust\<close>

text \<open>
  C2. The claim is that a call without a recovery key, on a supported backup, goes on
  to the signatures and returns the version info or an error. The code does otherwise:
  it derives the public key from the nil recovery key before it tests the key against
  nil, and that is a nil pointer dereference. In the example world the backup is signed
  by a trusted device: with a recovery key that does not match, the call returns the
  version info by the signature; with no recovery key it panics.
\<close>

theorem nil_backup_key_panics:
  "GetAndVerifyLatestKeyBackupVersion example_externals
     (example_machine [(''ed25519:TRUSTED'', ''sig'')]) None
   = Inl PanicNilDereference
   \<and> GetAndVerifyLatestKeyBackupVersion example_externals
     (example_machine [(''ed25519:TRUSTED'', ''sig'')]) (Some [1])
   = Inr (example_version [(''ed25519:TRUSTED'', ''sig'')])"
  by (simp add: GetAndVerifyLatestKeyBackupVersion_def MegolmBackupKey_PublicKey_def
      example_machine_def example_version_def signature_round_def
      KeyBackupAlgorithmMegolmBackupV1_def KeyAlgorithmEd25519_def)
    (simp add: example_externals_def)

lemma signature_loop_all_Continue:
  "(\<forall>keyID \<in> set keyIDs. signature_round ext mach versionInfo cs keyID = Continue) \<Longrightarrow>
   signature_loop ext mach versionInfo cs keyIDs = Inr False"
  by (induction keyIDs) simp_all

lemma signature_loop_prefix:
  "(\<forall>keyID \<in> set pre. signature_round ext mach versionInfo cs keyID = Continue) \<Longrightarrow>
   signature_loop ext mach versionInfo cs (pre @ keyIDs) =
   signature_loop ext mach versionInfo cs keyIDs"
  by (induction pre) simp_all

text \<open>
  A round continues exactly when the key is not an ed25519 key, or is the master key and
  the signature does not verify, or names a device that is unknown, or not trusted, or
  whose signature does not verify. A failed device lookup does not continue.
\<close>

lemma signature_round_Continue_iff:
  "signature_round ext mach versionInfo cs keyID = Continue \<longleftrightarrow>
     (fst (KeyID_Parse ext keyID) \<noteq> KeyAlgorithmEd25519
      \<or> (snd (KeyID_Parse ext keyID) = cs_MasterKey cs
          \<and> VerifySignatureJSON ext (rv_AuthData versionInfo) (Client_UserID mach)
                (snd (KeyID_Parse ext keyID)) (cs_MasterKey cs) \<noteq> Inr True)
      \<or> (snd (KeyID_Parse ext keyID) \<noteq> cs_MasterKey cs
          \<and> (case CryptoStore_GetDevice mach (Client_UserID mach) (snd (KeyID_Parse ext keyID)) of
                Inl err \<Rightarrow> False
              | Inr None \<Rightarrow> True
              | Inr (Some device) \<Rightarrow>
                  \<not> IsDeviceTrusted mach device
                  \<or> VerifySignatureJSON ext (rv_AuthData versionInfo) (Client_UserID mach)
                       (snd (KeyID_Parse ext keyID)) (dev_SigningKey device) \<noteq> Inr True)))"
  by (auto simp: signature_round_def split: prod.splits sum.splits option.splits)

lemma signature_round_Return_iff:
  "signature_round ext mach versionInfo cs keyID = Return e \<longleftrightarrow>
     (fst (KeyID_Parse ext keyID) = KeyAlgorithmEd25519
      \<and> snd (KeyID_Parse ext keyID) \<noteq> cs_MasterKey cs
      \<and> (\<exists>err. CryptoStore_GetDevice mach (Client_UserID mach) (snd (KeyID_Parse ext keyID))
                  = Inl err
               \<and> e = FailedToGetDevice (Client_UserID mach) (snd (KeyID_Parse ext keyID)) err))"
  by (auto simp: signature_round_def split: prod.splits sum.splits option.splits)

text \<open>
  C4, as claimed: with a recovery key that does not match, cross-signing keys cached
  and no signature of the owner verifying, the call fails with the not-trusted error.
  It fails in the example world on a backup signed under the one key ID
  \<open>ed25519:BROKEN\<close>: the lookup of the device fails in the store, the loop is left with
  that error, and no signature has verified.
\<close>

theorem store_error_aborts_verification:
  "GetAndVerifyLatestKeyBackupVersion example_externals
     (example_machine [(''ed25519:BROKEN'', ''sig'')]) (Some [1])
   = Inl (FailedToGetDevice ''@u'' ''BROKEN'' (ExternalError ''database is locked''))
   \<and> GetAndVerifyLatestKeyBackupVersion example_externals
     (example_machine [(''ed25519:BROKEN'', ''sig'')]) (Some [1])
   \<noteq> Inl (NoValidSignatureFromUser ''@u'')"
  by (simp add: GetAndVerifyLatestKeyBackupVersion_def MegolmBackupKey_PublicKey_def
      example_machine_def example_version_def signature_round_def
      KeyBackupAlgorithmMegolmBackupV1_def KeyAlgorithmEd25519_def)
    (simp add: example_externals_def)

text \<open>
  C4, amended: with a recovery key that does not match and cross-signing keys cached,
  the owner's signatures decide. If the owner has no signatures in the auth data, the
  call fails with the error that no signature of the owner was found. Otherwise the loop
  over the owner's signatures decides. If every round continues (the key is no ed25519
  key, the device is unknown or not trusted, or the signature does not verify), the call
  fails with the error that no valid signature of the owner was found. If the rounds
  continue up to one that verifies, the call returns the version info, whatever comes
  after. If the rounds continue up to one whose device lookup fails in the store, the
  call fails with that lookup error.
\<close>

theorem signature_trust_path:
  assumes "Client_GetKeyBackupLatestVersion mach = Inr versionInfo"
    and "rv_Algorithm versionInfo = KeyBackupAlgorithmMegolmBackupV1"
    and "ad_PublicKey (rv_AuthData versionInfo)
           \<noteq> base64_EncodeToString ext (MegolmBackupKey_PublicKey_Bytes ext key)"
    and "GetOwnCrossSigningPublicKeys mach = Some cs"
  shows "(ad_Signatures (rv_AuthData versionInfo) (Client_UserID mach) = None \<longrightarrow>
          GetAndVerifyLatestKeyBackupVersion ext mach (Some key)
            = Inl (NoSignatureFromUser (Client_UserID mach)))
       \<and> (ad_Signatures (rv_AuthData versionInfo) (Client_UserID mach) = Some userSignatures
          \<and> (\<forall>keyID \<in> set (map fst userSignatures).
                signature_round ext mach versionInfo cs keyID = Continue) \<longrightarrow>
          GetAndVerifyLatestKeyBackupVersion ext mach (Some key)
            = Inl (NoValidSignatureFromUser (Client_UserID mach)))
       \<and> (ad_Signatures (rv_AuthData versionInfo) (Client_UserID mach) = Some userSignatures
          \<and> map fst userSignatures = pre @ keyID # post
          \<and> (\<forall>k \<in> set pre. signature_round ext mach versionInfo cs k = Continue)
          \<and> signature_round ext mach versionInfo cs keyID = Break \<longrightarrow>
          GetAndVerifyLatestKeyBackupVersion ext mach (Some key) = Inr versionInfo)
       \<and> (ad_Signatures (rv_AuthData versionInfo) (Client_UserID mach) = Some userSignatures
          \<and> map fst userSignatures = pre @ keyID # post
          \<and> (\<forall>k \<in> set pre. signature_round ext mach versionInfo cs k = Continue)
          \<and> signature_round ext mach versionInfo cs keyID = Return err \<longrightarrow>
          GetAndVerifyLatestKeyBackupVersion ext mach (Some key) = Inl err)"
proof -
  have unsigned: "GetAndVerifyLatestKeyBackupVersion ext mach (Some key)
            = Inl (NoSignatureFromUser (Client_UserID mach))"
    if "ad_Signatures (rv_AuthData versionInfo) (Client_UserID mach) = None"
    using assms that
    by (simp add: GetAndVerifyLatestKeyBackupVersion_def MegolmBackupKey_PublicKey_def)
  have run: "GetAndVerifyLatestKeyBackupVersion ext mach (Some key) =
          (case signature_loop ext mach versionInfo cs (map fst userSignatures) of
             Inl err \<Rightarrow> Inl err
           | Inr signatureVerified \<Rightarrow>
               if \<not> signatureVerified then Inl (NoValidSignatureFromUser (Client_UserID mach))
               else Inr versionInfo)"
    if "ad_Signatures (rv_AuthData versionInfo) (Client_UserID mach) = Some userSignatures"
    using assms that
    by (simp add: GetAndVerifyLatestKeyBackupVersion_def MegolmBackupKey_PublicKey_def)
  show ?thesis
  proof (intro conjI impI)
    assume "ad_Signatures (rv_AuthData versionInfo) (Client_UserID mach) = None"
    then show "GetAndVerifyLatestKeyBackupVersion ext mach (Some key)
            = Inl (NoSignatureFromUser (Client_UserID mach))"
      by (rule unsigned)
  next
    assume a: "ad_Signatures (rv_AuthData versionInfo) (Client_UserID mach) = Some userSignatures
          \<and> (\<forall>keyID \<in> set (map fst userSignatures).
             signature_round ext mach versionInfo cs keyID = Continue)"
    then have "signature_loop ext mach versionInfo cs (map fst userSignatures) = Inr False"
      using signature_loop_all_Continue by blast
    with a show "GetAndVerifyLatestKeyBackupVersion ext mach (Some key)
            = Inl (NoValidSignatureFromUser (Client_UserID mach))"
      by (simp add: run)
  next
    assume a: "ad_Signatures (rv_AuthData versionInfo) (Client_UserID mach) = Some userSignatures
          \<and> map fst userSignatures = pre @ keyID # post
          \<and> (\<forall>k \<in> set pre. signature_round ext mach versionInfo cs k = Continue)
          \<and> signature_round ext mach versionInfo cs keyID = Break"
    then have "signature_loop ext mach versionInfo cs (map fst userSignatures) = Inr True"
      by (simp add: signature_loop_prefix)
    with a show "GetAndVerifyLatestKeyBackupVersion ext mach (Some key) = Inr versionInfo"
      by (simp add: run)
  next
    assume a: "ad_Signatures (rv_AuthData versionInfo) (Client_UserID mach) = Some userSignatures
          \<and> map fst userSignatures = pre @ keyID # post
          \<and> (\<forall>k \<in> set pre. signature_round ext mach versionInfo cs k = Continue)
          \<and> signature_round ext mach versionInfo cs keyID = Return err"
    then have "signature_loop ext mach versionInfo cs (map fst userSignatures) = Inl err"
      by (simp add: signature_loop_prefix)
    with a show "GetAndVerifyLatestKeyBackupVersion ext mach (Some key) = Inl err"
      by (simp add: run)
  qed
qed

lemma example_rounds:
  "signature_round example_externals (example_machine sigs) v
     \<lparr>cs_MasterKey = ''good'', cs_SelfSigningKey = ''ssk'', cs_UserSigningKey = ''usk''\<rparr>
     ''curve25519:TRUSTED'' = Continue"
  "signature_round example_externals (example_machine sigs) v
     \<lparr>cs_MasterKey = ''good'', cs_SelfSigningKey = ''ssk'', cs_UserSigningKey = ''usk''\<rparr>
     ''ed25519:FORGED'' = Continue"
  "signature_round example_externals (example_machine sigs) v
     \<lparr>cs_MasterKey = ''good'', cs_SelfSigningKey = ''ssk'', cs_UserSigningKey = ''usk''\<rparr>
     ''ed25519:UNTRUSTED'' = Continue"
  "signature_round example_externals (example_machine sigs) v
     \<lparr>cs_MasterKey = ''good'', cs_SelfSigningKey = ''ssk'', cs_UserSigningKey = ''usk''\<rparr>
     ''ed25519:NOBODY'' = Continue"
  "signature_round example_externals (example_machine sigs) v
     \<lparr>cs_MasterKey = ''good'', cs_SelfSigningKey = ''ssk'', cs_UserSigningKey = ''usk''\<rparr>
     ''ed25519:good'' = Break"
  "signature_round example_externals (example_machine sigs) v
     \<lparr>cs_MasterKey = ''good'', cs_SelfSigningKey = ''ssk'', cs_UserSigningKey = ''usk''\<rparr>
     ''ed25519:BROKEN''
     = Return (FailedToGetDevice ''@u'' ''BROKEN'' (ExternalError ''database is locked''))"
  by (simp_all add: signature_round_def example_externals_def example_machine_def
      KeyAlgorithmEd25519_def)

theorem signature_trust_path_witness:
  "GetAndVerifyLatestKeyBackupVersion example_externals
     ((example_machine [])\<lparr>Client_UserID := ''@v''\<rparr>) (Some [1])
   = Inl (NoSignatureFromUser ''@v'')
   \<and> GetAndVerifyLatestKeyBackupVersion example_externals
     (example_machine [(''curve25519:TRUSTED'', ''s1''), (''ed25519:FORGED'', ''s2''),
                       (''ed25519:UNTRUSTED'', ''s3''), (''ed25519:NOBODY'', ''s4'')])
     (Some [1])
   = Inl (NoValidSignatureFromUser ''@u'')
   \<and> GetAndVerifyLatestKeyBackupVersion example_externals
     (example_machine [(''ed25519:FORGED'', ''s1''), (''ed25519:good'', ''s2''),
                       (''ed25519:BROKEN'', ''s3'')])
     (Some [1])
   = Inr (example_version [(''ed25519:FORGED'', ''s1''), (''ed25519:good'', ''s2''),
                           (''ed25519:BROKEN'', ''s3'')])
   \<and> GetAndVerifyLatestKeyBackupVersion example_externals
     (example_machine [(''ed25519:UNTRUSTED'', ''s1''), (''ed25519:BROKEN'', ''s2''),
                       (''ed25519:good'', ''s3'')])
     (Some [1])
   = Inl (FailedToGetDevice ''@u'' ''BROKEN'' (ExternalError ''database is locked''))"
proof -
  let ?cs = "\<lparr>cs_MasterKey = ''good'', cs_SelfSigningKey = ''ssk'', cs_UserSigningKey = ''usk''\<rparr>"
  let ?s1 = "[(''curve25519:TRUSTED'', ''s1''), (''ed25519:FORGED'', ''s2''),
              (''ed25519:UNTRUSTED'', ''s3''), (''ed25519:NOBODY'', ''s4'')]"
  let ?s2 = "[(''ed25519:FORGED'', ''s1''), (''ed25519:good'', ''s2''),
              (''ed25519:BROKEN'', ''s3'')]"
  let ?s3 = "[(''ed25519:UNTRUSTED'', ''s1''), (''ed25519:BROKEN'', ''s2''),
              (''ed25519:good'', ''s3'')]"
  let ?other = "(example_machine [])\<lparr>Client_UserID := ''@v''\<rparr>"
  have fetch: "Client_GetKeyBackupLatestVersion (example_machine sigs)
                 = Inr (example_version sigs)" for sigs
    by (simp add: example_machine_def)
  have fetch': "Client_GetKeyBackupLatestVersion ?other = Inr (example_version [])"
    by (simp add: example_machine_def)
  have alg: "rv_Algorithm (example_version sigs) = KeyBackupAlgorithmMegolmBackupV1" for sigs
    by (simp add: example_version_def)
  have key: "ad_PublicKey (rv_AuthData (example_version sigs))
               \<noteq> base64_EncodeToString example_externals
                    (MegolmBackupKey_PublicKey_Bytes example_externals [1])" for sigs
    by (simp add: example_version_def example_externals_def)
  have cached: "GetOwnCrossSigningPublicKeys (example_machine sigs) = Some ?cs" for sigs
    by (simp add: example_machine_def)
  have cached': "GetOwnCrossSigningPublicKeys ?other = Some ?cs"
    by (simp add: example_machine_def)
  have signed: "ad_Signatures (rv_AuthData (example_version sigs))
                  (Client_UserID (example_machine sigs)) = Some sigs" for sigs
    by (simp add: example_version_def example_machine_def)
  have unsigned: "ad_Signatures (rv_AuthData (example_version [])) (Client_UserID ?other) = None"
    by (simp add: example_version_def)
  have uid: "Client_UserID (example_machine sigs) = ''@u''" for sigs
    by (simp add: example_machine_def)
  have stranger: "GetAndVerifyLatestKeyBackupVersion example_externals ?other (Some [1])
                    = Inl (NoSignatureFromUser ''@v'')"
    using signature_trust_path [OF fetch' alg key cached', of "[]" "[]" "''x''" "[]"
        PanicNilDereference] unsigned
    by simp
  have none: "GetAndVerifyLatestKeyBackupVersion example_externals (example_machine ?s1)
                (Some [1]) = Inl (NoValidSignatureFromUser ''@u'')"
    using signature_trust_path [OF fetch alg key cached, of ?s1 ?s1 "[]" "''x''" "[]"
        PanicNilDereference] signed [of ?s1]
    by (simp add: example_rounds uid)
  have trusted: "GetAndVerifyLatestKeyBackupVersion example_externals (example_machine ?s2)
                (Some [1]) = Inr (example_version ?s2)"
    using signature_trust_path [OF fetch alg key cached, of ?s2 ?s2 "[''ed25519:FORGED'']"
        "''ed25519:good''" "[''ed25519:BROKEN'']" PanicNilDereference] signed [of ?s2]
    by (simp add: example_rounds)
  have aborted: "GetAndVerifyLatestKeyBackupVersion example_externals (example_machine ?s3)
                (Some [1])
              = Inl (FailedToGetDevice ''@u'' ''BROKEN'' (ExternalError ''database is locked''))"
    using signature_trust_path [OF fetch alg key cached, of ?s3 ?s3 "[''ed25519:UNTRUSTED'']"
        "''ed25519:BROKEN''" "[''ed25519:good'']"
        "FailedToGetDevice ''@u'' ''BROKEN'' (ExternalError ''database is locked'')"]
      signed [of ?s3]
    by (simp add: example_rounds)
  from stranger none trusted aborted show ?thesis by simp
qed

subsection \<open>Import\<close>

text \<open>
  C3. The session key of a backup entry is imported only once the entry has passed the
  test for the algorithm megolm-v1. For every such entry whose session key imports and
  whose imported session has another ID than the claimed one, the call returns the
  session ID mismatch error and leaves the state of the machine as it was:
  \<^verbatim>\<open>PutGroupSession\<close> is not called and no session is stored.
\<close>

theorem ImportRoomKeyFromBackup_session_id_mismatch:
  assumes "msd_Algorithm keyBackupData = AlgorithmMegolmV1"
    and "InboundGroupSessionImport ext (msd_SessionKey keyBackupData) = Inr igsInternal"
    and "ois_ID igsInternal \<noteq> sessionID"
  shows "ImportRoomKeyFromBackup ext mach st version roomID sessionID keyBackupData
           = (Inl MismatchedSessionID, st)
         \<and> PutGroupSession_calls
             (snd (ImportRoomKeyFromBackup ext mach st version roomID sessionID keyBackupData))
           = PutGroupSession_calls st"
  using assms by (simp add: ImportRoomKeyFromBackup_def)

theorem ImportRoomKeyFromBackup_session_id_mismatch_witness:
  "ImportRoomKeyFromBackup example_externals (example_machine []) empty_state ''7'' ''!r'' ''sid''
     \<lparr>msd_Algorithm = AlgorithmMegolmV1, msd_ForwardingKeyChain = [''f''],
      msd_SenderClaimedKeys_Ed25519 = ''c'', msd_SenderKey = ''s'', msd_SessionKey = ''other''\<rparr>
   = (Inl MismatchedSessionID, empty_state)"
proof -
  let ?d = "\<lparr>msd_Algorithm = AlgorithmMegolmV1, msd_ForwardingKeyChain = [''f''],
      msd_SenderClaimedKeys_Ed25519 = ''c'', msd_SenderKey = ''s'', msd_SessionKey = ''other''\<rparr>"
  have alg: "msd_Algorithm ?d = AlgorithmMegolmV1"
    by simp
  have imp: "InboundGroupSessionImport example_externals (msd_SessionKey ?d)
               = Inr \<lparr>ois_ID = ''other'', ois_FirstKnownIndex = 0\<rparr>"
    by (simp add: example_externals_def)
  have neq: "ois_ID \<lparr>ois_ID = ''other'', ois_FirstKnownIndex = 0\<rparr> \<noteq> ''sid''"
    by simp
  from ImportRoomKeyFromBackup_session_id_mismatch [OF alg imp neq]
  show ?thesis by blast
qed

text \<open>
  An import either fails and records no received session, or succeeds and records
  exactly one.
\<close>

lemma ImportRoomKeyFromBackup_cases:
  "ImportRoomKeyFromBackup ext mach st version roomID sessionID d = (res, st') \<Longrightarrow>
   (\<exists>e. res = Inl e \<and> markSessionReceived_calls st' = markSessionReceived_calls st)
   \<or> (\<exists>igs. res = Inr igs \<and>
        markSessionReceived_calls st' =
          markSessionReceived_calls st
            @ [(roomID, sessionID, ois_FirstKnownIndex (igs_Internal igs))])"
  by (auto simp: ImportRoomKeyFromBackup_def Let_def
      split: if_splits sum.splits option.splits prod.splits)

subsection \<open>Restore\<close>

lemma restore_entry_counts:
  assumes "restore_entry ext mach version key roomID entry (st, c, f) = (st', c', f')"
  shows "c' + f' = c + f + 1
         \<and> c \<le> c' \<and> f \<le> f'
         \<and> int (length (markSessionReceived_calls st')) - c'
             = int (length (markSessionReceived_calls st)) - c"
proof (cases entry)
  case (Pair sessionID keyBackupData)
  show ?thesis
  proof (cases "SessionData_Decrypt ext (kbd_SessionData keyBackupData) key")
    case (Inl err)
    with Pair assms show ?thesis by (simp add: restore_entry_def)
  next
    case (Inr sessionData)
    obtain res st1 where imp:
      "ImportRoomKeyFromBackup ext mach st version roomID sessionID sessionData = (res, st1)"
      by (cases "ImportRoomKeyFromBackup ext mach st version roomID sessionID sessionData")
    from ImportRoomKeyFromBackup_cases [OF imp] Pair Inr imp assms
    show ?thesis by (auto simp: restore_entry_def)
  qed
qed

lemma restore_sessions_counts:
  "restore_sessions ext mach version key roomID entries (st, c, f) = (st', c', f') \<Longrightarrow>
   c' + f' = c + f + int (length entries)
   \<and> c \<le> c' \<and> f \<le> f'
   \<and> int (length (markSessionReceived_calls st')) - c'
       = int (length (markSessionReceived_calls st)) - c"
proof (induction entries arbitrary: st c f)
  case Nil
  then show ?case by simp
next
  case (Cons entry entries)
  obtain st1 c1 f1 where step:
    "restore_entry ext mach version key roomID entry (st, c, f) = (st1, c1, f1)"
    by (cases "restore_entry ext mach version key roomID entry (st, c, f)")
  from Cons.prems step
  have rest: "restore_sessions ext mach version key roomID entries (st1, c1, f1) = (st', c', f')"
    by simp
  from Cons.IH [OF rest] restore_entry_counts [OF step]
  show ?case by simp
qed

lemma restore_rooms_counts:
  "restore_rooms ext mach version key rooms (st, c, f) = (st', c', f') \<Longrightarrow>
   c' + f' = c + f + int (length (entries_of \<lparr>rb_Rooms = rooms\<rparr>))
   \<and> c \<le> c' \<and> f \<le> f'
   \<and> int (length (markSessionReceived_calls st')) - c'
       = int (length (markSessionReceived_calls st)) - c"
proof (induction rooms arbitrary: st c f)
  case Nil
  then show ?case by (simp add: entries_of_def)
next
  case (Cons room rooms)
  obtain roomID backup where room: "room = (roomID, backup)"
    by (cases room)
  obtain st1 c1 f1 where step:
    "restore_sessions ext mach version key roomID (rkb_Sessions backup) (st, c, f) = (st1, c1, f1)"
    by (cases "restore_sessions ext mach version key roomID (rkb_Sessions backup) (st, c, f)")
  from Cons.prems room step
  have rest: "restore_rooms ext mach version key rooms (st1, c1, f1) = (st', c', f')"
    by simp
  from Cons.IH [OF rest] restore_sessions_counts [OF step] room
  show ?case by (simp add: entries_of_def)
qed

text \<open>
  The two nested loops run the loop body once on every entry of the payload, in order.
\<close>

lemma restore_sessions_fold:
  "restore_sessions ext mach version key roomID entries acc =
   fold (\<lambda>(room, entry). restore_entry ext mach version key room entry)
     (map (Pair roomID) entries) acc"
  by (induction entries arbitrary: acc) simp_all

lemma restore_rooms_fold:
  "restore_rooms ext mach version key rooms acc =
   fold (\<lambda>(room, entry). restore_entry ext mach version key room entry)
     (entries_of \<lparr>rb_Rooms = rooms\<rparr>) acc"
proof (induction rooms arbitrary: acc)
  case Nil
  then show ?case by (simp add: entries_of_def)
next
  case (Cons room rooms)
  obtain roomID backup where room: "room = (roomID, backup)"
    by (cases room)
  have "entries_of \<lparr>rb_Rooms = room # rooms\<rparr> =
          map (Pair roomID) (rkb_Sessions backup) @ entries_of \<lparr>rb_Rooms = rooms\<rparr>"
    by (simp add: entries_of_def room)
  then show ?case
    using Cons.IH by (simp add: room restore_sessions_fold)
qed

text \<open>
  C5. When the payload cannot be fetched, the call returns the fetch error and changes
  nothing. When it is fetched, the call returns no error, whatever the entries do: the
  loop body runs once on every entry of the payload in order; the two counters it logs
  add up to the number of entries; and the imported count is the number of sessions
  newly marked as received, one for each import that succeeded. An entry that does not
  decrypt adds one to the failed count alone and leaves the state as it is; an entry
  that decrypts but does not import adds one to the failed count alone; an entry that
  imports adds one to the imported count alone.
\<close>

theorem GetAndStoreKeyBackup_counts:
  "(Client_GetKeyBackup mach version = Inl err \<longrightarrow>
      GetAndStoreKeyBackup ext mach st version key = (Some err, None, st))
   \<and> (Client_GetKeyBackup mach version = Inr keys \<longrightarrow>
      (\<exists>count failedCount st'.
         GetAndStoreKeyBackup ext mach st version key = (None, Some (count, failedCount), st')
         \<and> (st', count, failedCount)
             = fold (\<lambda>(room, entry). restore_entry ext mach version key room entry)
                 (entries_of keys) (st, 0, 0)
         \<and> 0 \<le> count \<and> 0 \<le> failedCount
         \<and> count + failedCount = int (length (entries_of keys))
         \<and> count = int (length (markSessionReceived_calls st'))
                     - int (length (markSessionReceived_calls st))))
   \<and> (SessionData_Decrypt ext (kbd_SessionData kbd) key = Inl e \<longrightarrow>
        restore_entry ext mach version key roomID (sessionID, kbd) (s, c, f) = (s, c, f + 1))
   \<and> (SessionData_Decrypt ext (kbd_SessionData kbd) key = Inr d
        \<and> ImportRoomKeyFromBackup ext mach s version roomID sessionID d = (Inl e, s') \<longrightarrow>
        restore_entry ext mach version key roomID (sessionID, kbd) (s, c, f) = (s', c, f + 1))
   \<and> (SessionData_Decrypt ext (kbd_SessionData kbd) key = Inr d
        \<and> ImportRoomKeyFromBackup ext mach s version roomID sessionID d = (Inr igs, s') \<longrightarrow>
        restore_entry ext mach version key roomID (sessionID, kbd) (s, c, f) = (s', c + 1, f))"
proof (intro conjI impI)
  assume "Client_GetKeyBackup mach version = Inl err"
  then show "GetAndStoreKeyBackup ext mach st version key = (Some err, None, st)"
    by (simp add: GetAndStoreKeyBackup_def)
next
  assume fetch: "Client_GetKeyBackup mach version = Inr keys"
  obtain st' c' f' where loop:
    "restore_rooms ext mach version key (rb_Rooms keys) (st, 0, 0) = (st', c', f')"
    by (cases "restore_rooms ext mach version key (rb_Rooms keys) (st, 0, 0)")
  have keys: "\<lparr>rb_Rooms = rb_Rooms keys\<rparr> = keys"
    by simp
  from restore_rooms_counts [OF loop]
  have "c' + f' = int (length (entries_of keys))" and "0 \<le> c'" and "0 \<le> f'"
    and "c' = int (length (markSessionReceived_calls st'))
                - int (length (markSessionReceived_calls st))"
    by (simp_all add: keys)
  moreover have "GetAndStoreKeyBackup ext mach st version key = (None, Some (c', f'), st')"
    using fetch loop by (simp add: GetAndStoreKeyBackup_def)
  moreover have "(st', c', f')
             = fold (\<lambda>(room, entry). restore_entry ext mach version key room entry)
                 (entries_of keys) (st, 0, 0)"
    using loop restore_rooms_fold [of ext mach version key "rb_Rooms keys" "(st, 0, 0)"]
    by (simp add: keys)
  ultimately show "\<exists>count failedCount st'.
         GetAndStoreKeyBackup ext mach st version key = (None, Some (count, failedCount), st')
         \<and> (st', count, failedCount)
             = fold (\<lambda>(room, entry). restore_entry ext mach version key room entry)
                 (entries_of keys) (st, 0, 0)
         \<and> 0 \<le> count \<and> 0 \<le> failedCount
         \<and> count + failedCount = int (length (entries_of keys))
         \<and> count = int (length (markSessionReceived_calls st'))
                     - int (length (markSessionReceived_calls st))"
    by blast
next
  assume "SessionData_Decrypt ext (kbd_SessionData kbd) key = Inl e"
  then show "restore_entry ext mach version key roomID (sessionID, kbd) (s, c, f)
               = (s, c, f + 1)"
    by (simp add: restore_entry_def)
next
  assume "SessionData_Decrypt ext (kbd_SessionData kbd) key = Inr d
        \<and> ImportRoomKeyFromBackup ext mach s version roomID sessionID d = (Inl e, s')"
  then show "restore_entry ext mach version key roomID (sessionID, kbd) (s, c, f)
               = (s', c, f + 1)"
    by (simp add: restore_entry_def)
next
  assume "SessionData_Decrypt ext (kbd_SessionData kbd) key = Inr d
        \<and> ImportRoomKeyFromBackup ext mach s version roomID sessionID d = (Inr igs, s')"
  then show "restore_entry ext mach version key roomID (sessionID, kbd) (s, c, f)
               = (s', c + 1, f)"
    by (simp add: restore_entry_def)
qed

theorem GetAndStoreKeyBackup_counts_witness:
  "GetAndStoreKeyBackup example_externals (example_machine []) empty_state ''8'' (Some [1])
     = (Some (ExternalError ''not found''), None, empty_state)
   \<and> fst (GetAndStoreKeyBackup example_externals (example_machine []) empty_state ''7''
            (Some [1])) = None
   \<and> fst (snd (GetAndStoreKeyBackup example_externals (example_machine []) empty_state ''7''
            (Some [1]))) = Some (2, 2)
   \<and> restore_entry example_externals (example_machine []) ''7'' (Some [1]) ''!r1''
        (''x'', \<lparr>kbd_SessionData = []\<rparr>) (empty_state, 0, 0) = (empty_state, 0, 1)
   \<and> restore_entry example_externals (example_machine []) ''7'' (Some [1]) ''!r2''
        (''y'', \<lparr>kbd_SessionData = [1]\<rparr>) (empty_state, 0, 0) = (empty_state, 0, 1)
   \<and> snd (restore_entry example_externals (example_machine []) ''7'' (Some [1]) ''!r1''
        (''A'', \<lparr>kbd_SessionData = [0]\<rparr>) (empty_state, 0, 0)) = (1, 0)"
proof -
  let ?m = "example_machine []"
  let ?dA = "\<lparr>msd_Algorithm = AlgorithmMegolmV1, msd_ForwardingKeyChain = [],
              msd_SenderClaimedKeys_Ed25519 = ''claimed'', msd_SenderKey = ''sender'',
              msd_SessionKey = ''A''\<rparr>"
  let ?dB = "\<lparr>msd_Algorithm = AlgorithmMegolmV1, msd_ForwardingKeyChain = [],
              msd_SenderClaimedKeys_Ed25519 = ''claimed'', msd_SenderKey = ''sender'',
              msd_SessionKey = ''B''\<rparr>"
  let ?igs = "\<lparr>igs_Internal = \<lparr>ois_ID = ''A'', ois_FirstKnownIndex = 0\<rparr>,
               igs_SigningKey = ''claimed'', igs_SenderKey = ''sender'', igs_RoomID = ''!r1'',
               igs_ForwardingChains = [''sender''], igs_id = ''A'', igs_ReceivedAt = 0,
               igs_MaxAge = 0, igs_MaxMessages = 0, igs_KeyBackupVersion = ''7''\<rparr>"
  let ?sA = "\<lparr>PutGroupSession_calls = [?igs],
              markSessionReceived_calls = [(''!r1'', ''A'', 0)]\<rparr>"
  have f7: "Client_GetKeyBackup ?m ''7'' = Inr example_backup"
    by (simp add: example_machine_def)
  have f8: "Client_GetKeyBackup ?m ''8'' = Inl (ExternalError ''not found'')"
    by (simp add: example_machine_def)
  have dec_x: "SessionData_Decrypt example_externals (kbd_SessionData \<lparr>kbd_SessionData = []\<rparr>)
                 (Some [1]) = Inl (ExternalError ''bad mac'')"
    by (simp add: example_externals_def)
  have dec_y: "SessionData_Decrypt example_externals (kbd_SessionData \<lparr>kbd_SessionData = [1]\<rparr>)
                 (Some [1]) = Inr ?dB"
    by (simp add: example_externals_def)
  have dec_A: "SessionData_Decrypt example_externals (kbd_SessionData \<lparr>kbd_SessionData = [0]\<rparr>)
                 (Some [1]) = Inr ?dA"
    by (simp add: example_externals_def)
  have imp_y: "ImportRoomKeyFromBackup example_externals ?m empty_state ''7'' ''!r2'' ''y'' ?dB
                 = (Inl MismatchedSessionID, empty_state)"
    by (simp add: ImportRoomKeyFromBackup_def example_externals_def)
  have imp_A: "ImportRoomKeyFromBackup example_externals ?m empty_state ''7'' ''!r1'' ''A'' ?dA
                 = (Inr ?igs, ?sA)"
    by (simp add: ImportRoomKeyFromBackup_def example_externals_def example_machine_def
        empty_state_def Duration_Milliseconds_def Let_def)
  note not_fetched = GetAndStoreKeyBackup_counts
    [where mach = ?m and version = "''8''" and ext = example_externals and st = empty_state
       and key = "Some [1]" and keys = example_backup and err = "ExternalError ''not found''"
       and kbd = "\<lparr>kbd_SessionData = []\<rparr>" and e = "ExternalError ''bad mac''"
       and roomID = "''!r1''" and sessionID = "''x''" and s = empty_state and c = 0 and f = 0
       and d = ?dA and s' = empty_state and igs = ?igs]
  note not_decrypted = GetAndStoreKeyBackup_counts
    [where mach = ?m and version = "''7''" and ext = example_externals and st = empty_state
       and key = "Some [1]" and keys = example_backup and err = "ExternalError ''not found''"
       and kbd = "\<lparr>kbd_SessionData = []\<rparr>" and e = "ExternalError ''bad mac''"
       and roomID = "''!r1''" and sessionID = "''x''" and s = empty_state and c = 0 and f = 0
       and d = ?dA and s' = empty_state and igs = ?igs]
  note fetched = GetAndStoreKeyBackup_counts
    [where mach = ?m and version = "''7''" and ext = example_externals and st = empty_state
       and key = "Some [1]" and keys = example_backup and err = "ExternalError ''not found''"
       and kbd = "\<lparr>kbd_SessionData = [1]\<rparr>" and e = MismatchedSessionID
       and roomID = "''!r2''" and sessionID = "''y''" and s = empty_state and c = 0 and f = 0
       and d = ?dB and s' = empty_state and igs = ?igs]
  note imported = GetAndStoreKeyBackup_counts
    [where mach = ?m and version = "''7''" and ext = example_externals and st = empty_state
       and key = "Some [1]" and keys = example_backup and err = "ExternalError ''not found''"
       and kbd = "\<lparr>kbd_SessionData = [0]\<rparr>" and e = MismatchedSessionID
       and roomID = "''!r1''" and sessionID = "''A''" and s = empty_state and c = 0 and f = 0
       and d = ?dA and s' = ?sA and igs = ?igs]
  have w1: "GetAndStoreKeyBackup example_externals ?m empty_state ''8'' (Some [1])
              = (Some (ExternalError ''not found''), None, empty_state)"
    using not_fetched f8 by blast
  have w3: "restore_entry example_externals ?m ''7'' (Some [1]) ''!r1''
              (''x'', \<lparr>kbd_SessionData = []\<rparr>) (empty_state, 0, 0) = (empty_state, 0, 1)"
    using not_decrypted dec_x by simp
  have w4: "restore_entry example_externals ?m ''7'' (Some [1]) ''!r2''
              (''y'', \<lparr>kbd_SessionData = [1]\<rparr>) (empty_state, 0, 0) = (empty_state, 0, 1)"
    using fetched dec_y imp_y by simp
  have w5: "restore_entry example_externals ?m ''7'' (Some [1]) ''!r1''
              (''A'', \<lparr>kbd_SessionData = [0]\<rparr>) (empty_state, 0, 0) = (?sA, 1, 0)"
    using imported dec_A imp_A by simp
  have total: "snd (fold (\<lambda>(room, entry). restore_entry example_externals ?m ''7'' (Some [1])
                       room entry) (entries_of example_backup) (empty_state, 0, 0)) = (2, 2)"
    by code_simp
  from fetched f7 obtain count failedCount st' where
    res: "GetAndStoreKeyBackup example_externals ?m empty_state ''7'' (Some [1])
            = (None, Some (count, failedCount), st')"
    and run: "(st', count, failedCount)
            = fold (\<lambda>(room, entry). restore_entry example_externals ?m ''7'' (Some [1])
                      room entry) (entries_of example_backup) (empty_state, 0, 0)"
    by blast
  from run [symmetric] total have "count = 2" and "failedCount = 2"
    by simp_all
  with res have w2: "fst (GetAndStoreKeyBackup example_externals ?m empty_state ''7''
            (Some [1])) = None
   \<and> fst (snd (GetAndStoreKeyBackup example_externals ?m empty_state ''7''
            (Some [1]))) = Some (2, 2)"
    by simp
  from w1 w2 w3 w4 w5 show ?thesis by simp
qed

end
